theory Spec2Isabelle
  imports Complex_Main "HOL-Library.Word"
begin

section \<open>Data model of handover-simulation.cc\<close>

text \<open>
  The program keeps its state in global \<open>std::map\<close>s keyed by IMSI (\<open>uint64_t\<close>) or by
  cell id (\<open>uint16_t\<close>) and in one logger object that appends rows to a CSV file.
  A \<open>std::map\<close> is a partial function; \<open>find (k) == end ()\<close> is \<open>m k = None\<close>.
  A C++ \<open>double\<close> is modelled as a real number: arithmetic is exact, rounding is not
  part of the model. The simulated clock (\<open>Simulator::Now ().GetSeconds ()\<close>) is read
  by the handlers from the simulator; here it is the parameter \<open>time\<close>. The context
  string and the rnti that the trace sources pass along are not used by any handler for
  its result and are left out.
\<close>

type_synonym imsi_t = "64 word"
type_synonym cell_t = "16 word"

datatype Vector = Vector (vec_x: real) (vec_y: real) (vec_z: real)

text \<open>
  One row of handover\_dataset.csv, with the column names of the header written by
  \<open>HandoverDataLogger::Initialize\<close>. A column that \<open>LogMeasurement\<close> leaves empty
  (two commas in a row) is \<open>None\<close>.
\<close>

record row =
  Time :: real
  UE_ID :: imsi_t
  Old_gNB_ID :: cell_t
  New_gNB_ID :: cell_t
  RSRP_Old :: "real option"
  RSRP_New :: real
  RSRQ_Old :: "real option"
  RSRQ_New :: real
  SINR_Old :: "real option"
  SINR_New :: real
  Throughput_DL :: real
  Throughput_UL :: real
  X_Position :: real
  Y_Position :: real
  Speed :: real
  Handover_Type :: string

text \<open>
  The global variables. \<open>g_logger\<close> is a \<open>Ptr<HandoverDataLogger>\<close>: \<open>None\<close> is the
  null pointer, \<open>Some rows\<close> is a logger whose file holds \<open>rows\<close>, oldest first.
\<close>

record state =
  ueCurrentCell :: "imsi_t \<rightharpoonup> cell_t"
  ueLastPosition :: "imsi_t \<rightharpoonup> Vector"
  ueLastSpeed :: "imsi_t \<rightharpoonup> real"
  ueThroughputDl :: "imsi_t \<rightharpoonup> real"
  ueThroughputUl :: "imsi_t \<rightharpoonup> real"
  ueLastRsrp :: "imsi_t \<rightharpoonup> real"
  ueLastRsrq :: "imsi_t \<rightharpoonup> real"
  ueLastSinr :: "imsi_t \<rightharpoonup> real"
  cellRsrp :: "cell_t \<rightharpoonup> real"
  cellSinr :: "cell_t \<rightharpoonup> real"
  g_logger :: "row list option"

text \<open>The state when \<open>main\<close> starts the simulation: empty maps, logger created.\<close>

definition initial_state :: state where
  "initial_state =
     \<lparr>ueCurrentCell = Map.empty, ueLastPosition = Map.empty, ueLastSpeed = Map.empty,
      ueThroughputDl = Map.empty, ueThroughputUl = Map.empty, ueLastRsrp = Map.empty,
      ueLastRsrq = Map.empty, ueLastSinr = Map.empty, cellRsrp = Map.empty,
      cellSinr = Map.empty, g_logger = Some []\<rparr>"

section \<open>The logger\<close>

definition LogHandover ::
  "row list \<Rightarrow> real \<Rightarrow> imsi_t \<Rightarrow> cell_t \<Rightarrow> cell_t \<Rightarrow> real \<Rightarrow> real \<Rightarrow> real \<Rightarrow> real \<Rightarrow> real \<Rightarrow> real
     \<Rightarrow> real \<Rightarrow> real \<Rightarrow> real \<Rightarrow> real \<Rightarrow> real \<Rightarrow> string \<Rightarrow> row list" where
  "LogHandover m_file time ueId oldCellId newCellId rsrpOld rsrpNew rsrqOld rsrqNew
       sinrOld sinrNew throughputDl throughputUl x y speed hoType =
     m_file @
     [\<lparr>Time = time, UE_ID = ueId, Old_gNB_ID = oldCellId, New_gNB_ID = newCellId,
       RSRP_Old = Some rsrpOld, RSRP_New = rsrpNew,
       RSRQ_Old = Some rsrqOld, RSRQ_New = rsrqNew,
       SINR_Old = Some sinrOld, SINR_New = sinrNew,
       Throughput_DL = throughputDl, Throughput_UL = throughputUl,
       X_Position = x, Y_Position = y, Speed = speed, Handover_Type = hoType\<rparr>]"

definition LogMeasurement ::
  "row list \<Rightarrow> real \<Rightarrow> imsi_t \<Rightarrow> cell_t \<Rightarrow> real \<Rightarrow> real \<Rightarrow> real \<Rightarrow> real \<Rightarrow> real \<Rightarrow> real
     \<Rightarrow> real \<Rightarrow> real \<Rightarrow> row list" where
  "LogMeasurement m_file time ueId cellId rsrp rsrq sinr x y speed throughputDl throughputUl =
     m_file @
     [\<lparr>Time = time, UE_ID = ueId, Old_gNB_ID = cellId, New_gNB_ID = cellId,
       RSRP_Old = None, RSRP_New = rsrp,
       RSRQ_Old = None, RSRQ_New = rsrq,
       SINR_Old = None, SINR_New = sinr,
       Throughput_DL = throughputDl, Throughput_UL = throughputUl,
       X_Position = x, Y_Position = y, Speed = speed, Handover_Type = ''MEASUREMENT''\<rparr>]"

section \<open>Trace callbacks\<close>

definition NotifyHandoverStartEnb :: "imsi_t \<Rightarrow> cell_t \<Rightarrow> cell_t \<Rightarrow> state \<Rightarrow> state" where
  "NotifyHandoverStartEnb imsi cellid targetCellId s =
     (if ueCurrentCell s imsi = None
      then s\<lparr>ueCurrentCell := (ueCurrentCell s)(imsi \<mapsto> cellid)\<rparr>
      else s)"

definition NotifyHandoverEndOkEnb :: "real \<Rightarrow> imsi_t \<Rightarrow> cell_t \<Rightarrow> state \<Rightarrow> state" where
  "NotifyHandoverEndOkEnb time imsi cellid s =
     (let targetCellId = cellid;
          oldCellId = (case ueCurrentCell s imsi of Some c \<Rightarrow> c | None \<Rightarrow> cellid)
      in case g_logger s of
           None \<Rightarrow> s
         | Some m_file \<Rightarrow>
             let x = (case ueLastPosition s imsi of Some p \<Rightarrow> vec_x p | None \<Rightarrow> 0);
                 y = (case ueLastPosition s imsi of Some p \<Rightarrow> vec_y p | None \<Rightarrow> 0);
                 speed = (case ueLastSpeed s imsi of Some v \<Rightarrow> v | None \<Rightarrow> 0);
                 rsrpNew = (case ueLastRsrp s imsi of Some v \<Rightarrow> v | None \<Rightarrow> - 100);
                 rsrpOld = rsrpNew;
                 rsrqNew = (case ueLastRsrq s imsi of Some v \<Rightarrow> v | None \<Rightarrow> - 20);
                 rsrqOld = rsrqNew;
                 sinrNew = (case ueLastSinr s imsi of Some v \<Rightarrow> v | None \<Rightarrow> 0);
                 sinrOld = sinrNew;
                 throughputDl = (case ueThroughputDl s imsi of Some v \<Rightarrow> v | None \<Rightarrow> 0);
                 throughputUl = (case ueThroughputUl s imsi of Some v \<Rightarrow> v | None \<Rightarrow> 0)
             in s\<lparr>g_logger :=
                    Some (LogHandover m_file time imsi oldCellId targetCellId
                            rsrpOld rsrpNew rsrqOld rsrqNew sinrOld sinrNew
                            throughputDl throughputUl x y speed ''HANDOVER''),
                  ueCurrentCell := (ueCurrentCell s)(imsi \<mapsto> targetCellId)\<rparr>)"

definition NotifyConnectionEstablishedUe :: "imsi_t \<Rightarrow> cell_t \<Rightarrow> state \<Rightarrow> state" where
  "NotifyConnectionEstablishedUe imsi cellid s =
     s\<lparr>ueCurrentCell := (ueCurrentCell s)(imsi \<mapsto> cellid)\<rparr>"

definition UePhyRsrpSinr :: "cell_t \<Rightarrow> real \<Rightarrow> real \<Rightarrow> state \<Rightarrow> state" where
  "UePhyRsrpSinr cellId rsrp sinr s =
     s\<lparr>cellRsrp := (cellRsrp s)(cellId \<mapsto> rsrp), cellSinr := (cellSinr s)(cellId \<mapsto> sinr)\<rparr>"

text \<open>
  The part of \<open>LteRrcSap::MeasurementReport\<close> that the handler reads:
  \<open>msg.measResults.measResultPCell\<close>, two \<open>uint8_t\<close> codes. The alternative callback
  \<open>NotifyReportUeMeasurements\<close> is never connected (its \<open>Config::Connect\<close> is commented
  out in \<open>main\<close>) and is left out.
\<close>

record MeasResultPCell =
  rsrpResult :: "8 word"
  rsrqResult :: "8 word"

definition NotifyRecvMeasurementReport ::
  "real \<Rightarrow> imsi_t \<Rightarrow> cell_t \<Rightarrow> MeasResultPCell \<Rightarrow> state \<Rightarrow> state" where
  "NotifyRecvMeasurementReport time imsi cellId msg s =
     (let rsrpEncoded = rsrpResult msg;
          rsrp = - 140 + real (unat rsrpEncoded);
          s1 = s\<lparr>ueLastRsrp := (ueLastRsrp s)(imsi \<mapsto> rsrp)\<rparr>;
          rsrqEncoded = rsrqResult msg;
          rsrq = - 19.5 + real (unat rsrqEncoded) / 2;
          s2 = s1\<lparr>ueLastRsrq := (ueLastRsrq s1)(imsi \<mapsto> rsrq)\<rparr>;
          (sinr, s3) =
            (case ueLastSinr s2 imsi of
               Some v \<Rightarrow> (v, s2)
             | None \<Rightarrow>
                 (if 0 < cellId
                  then (case cellSinr s2 cellId of
                          Some c \<Rightarrow> (c, s2\<lparr>ueLastSinr := (ueLastSinr s2)(imsi \<mapsto> c)\<rparr>)
                        | None \<Rightarrow> (0, s2))
                  else (0, s2)))
      in case g_logger s3 of
           None \<Rightarrow> s3
         | Some m_file \<Rightarrow>
             let x = (case ueLastPosition s3 imsi of Some p \<Rightarrow> vec_x p | None \<Rightarrow> 0);
                 y = (case ueLastPosition s3 imsi of Some p \<Rightarrow> vec_y p | None \<Rightarrow> 0);
                 speed = (case ueLastSpeed s3 imsi of Some v \<Rightarrow> v | None \<Rightarrow> 0);
                 throughputDl = (case ueThroughputDl s3 imsi of Some v \<Rightarrow> v | None \<Rightarrow> 0);
                 throughputUl = (case ueThroughputUl s3 imsi of Some v \<Rightarrow> v | None \<Rightarrow> 0)
             in s3\<lparr>g_logger :=
                     Some (LogMeasurement m_file time imsi cellId rsrp rsrq sinr x y speed
                             throughputDl throughputUl)\<rparr>)"

section \<open>Periodic samplers\<close>

text \<open>
  What the samplers read from the simulator: a UE node with the \<open>MobilityModel\<close>
  aggregated to it (\<open>None\<close> when \<open>GetObject<MobilityModel> ()\<close> is null), a net device
  that is an \<open>LteUeNetDevice\<close> with its IMSI or some other device, the flow monitor's
  \<open>FlowStats\<close> per flow id in the iteration order of the \<open>std::map\<close>, and the
  classifier's five-tuple of a flow id. Addresses are the 32 bits of an \<open>Ipv4Address\<close>.
\<close>

record MobilityModel =
  GetPosition :: Vector
  GetVelocity :: Vector

type_synonym Node = "MobilityModel option"

datatype NetDevice = LteUeNetDevice (GetImsi: imsi_t) | OtherNetDevice

record FlowStats =
  delaySum :: real
  jitterSum :: real
  txBytes :: "64 word"
  rxBytes :: "64 word"
  txPackets :: "32 word"
  rxPackets :: "32 word"
  lostPackets :: "32 word"

record FiveTuple =
  sourceAddress :: "32 word"
  destinationAddress :: "32 word"
  protocol :: "8 word"
  sourcePort :: "16 word"
  destinationPort :: "16 word"

type_synonym FlowId = "32 word"

subsection \<open>LogEverySecond\<close>

text \<open>The IMSI of node \<open>i\<close>; the fallback \<open>i + 1\<close> is computed in \<open>uint32_t\<close>.\<close>

definition LogEverySecond_imsi :: "NetDevice list \<Rightarrow> nat \<Rightarrow> imsi_t" where
  "LogEverySecond_imsi ueDevs i =
     (if i < length ueDevs
      then (case ueDevs ! i of
              LteUeNetDevice m \<Rightarrow> m
            | OtherNetDevice \<Rightarrow> ucast (word_of_nat i + 1 :: 32 word))
      else ucast (word_of_nat i + 1 :: 32 word))"

text \<open>The body of the loop over the UE nodes, for node \<open>i\<close>.\<close>

definition LogEverySecond_node :: "real \<Rightarrow> NetDevice list \<Rightarrow> nat \<Rightarrow> Node \<Rightarrow> state \<Rightarrow> state" where
  "LogEverySecond_node time ueDevs i node s =
     (case node of
        None \<Rightarrow> s
      | Some mobility \<Rightarrow>
          let pos = GetPosition mobility;
              vel = GetVelocity mobility;
              speed = sqrt (vec_x vel * vec_x vel + vec_y vel * vec_y vel);
              imsi = LogEverySecond_imsi ueDevs i;
              s1 = s\<lparr>ueLastPosition := (ueLastPosition s)(imsi \<mapsto> pos),
                     ueLastSpeed := (ueLastSpeed s)(imsi \<mapsto> speed)\<rparr>
          in case g_logger s1 of
               None \<Rightarrow> s1
             | Some m_file \<Rightarrow>
                 let cellId = (case ueCurrentCell s1 imsi of Some c \<Rightarrow> c | None \<Rightarrow> 0);
                     (rsrp, s2) =
                       (case ueLastRsrp s1 imsi of
                          Some v \<Rightarrow> (v, s1)
                        | None \<Rightarrow>
                            (if 0 < cellId
                             then (case cellRsrp s1 cellId of
                                     Some c \<Rightarrow> (c, s1\<lparr>ueLastRsrp := (ueLastRsrp s1)(imsi \<mapsto> c)\<rparr>)
                                   | None \<Rightarrow> (- 100, s1))
                             else (- 100, s1)));
                     rsrq = (case ueLastRsrq s2 imsi of Some v \<Rightarrow> v | None \<Rightarrow> - 20);
                     (sinr, s3) =
                       (case ueLastSinr s2 imsi of
                          Some v \<Rightarrow> (v, s2)
                        | None \<Rightarrow>
                            (if 0 < cellId
                             then (case cellSinr s2 cellId of
                                     Some c \<Rightarrow> (c, s2\<lparr>ueLastSinr := (ueLastSinr s2)(imsi \<mapsto> c)\<rparr>)
                                   | None \<Rightarrow> (0, s2))
                             else (0, s2)));
                     throughputDl = (case ueThroughputDl s3 imsi of Some v \<Rightarrow> v | None \<Rightarrow> 0);
                     throughputUl = (case ueThroughputUl s3 imsi of Some v \<Rightarrow> v | None \<Rightarrow> 0)
                 in s3\<lparr>g_logger :=
                         Some (LogMeasurement m_file time imsi cellId rsrp rsrq sinr
                                 (vec_x pos) (vec_y pos) speed throughputDl throughputUl)\<rparr>)"

fun LogEverySecond_loop :: "real \<Rightarrow> NetDevice list \<Rightarrow> nat \<Rightarrow> Node list \<Rightarrow> state \<Rightarrow> state" where
  "LogEverySecond_loop time ueDevs i [] s = s"
| "LogEverySecond_loop time ueDevs i (node # rest) s =
     LogEverySecond_loop time ueDevs (Suc i) rest (LogEverySecond_node time ueDevs i node s)"

text \<open>
  One tick. The call re-arms itself with \<open>Simulator::Schedule (Seconds (1.0), ...)\<close>;
  the scheduler belongs to the simulator, so a run of ticks is the list of their times.
\<close>

definition LogEverySecond :: "real \<Rightarrow> Node list \<Rightarrow> NetDevice list \<Rightarrow> state \<Rightarrow> state" where
  "LogEverySecond time ueNodes ueDevs s = LogEverySecond_loop time ueDevs 0 ueNodes s"


subsection \<open>SampleThroughput\<close>

text \<open>The loop that builds \<open>ipToImsi\<close>, for \<open>i\<close> from 0 below \<open>numUes\<close>.\<close>

definition ipToImsi_step ::
  "32 word list \<Rightarrow> NetDevice list \<Rightarrow> (32 word \<rightharpoonup> imsi_t) \<Rightarrow> nat \<Rightarrow> (32 word \<rightharpoonup> imsi_t)" where
  "ipToImsi_step ueIpIfaces ueDevs m i =
     (if i < length ueIpIfaces
      then (if i < length ueDevs
            then (case ueDevs ! i of
                    LteUeNetDevice imsi \<Rightarrow> m(ueIpIfaces ! i \<mapsto> imsi)
                  | OtherNetDevice \<Rightarrow> m)
            else m)
      else m)"

definition build_ipToImsi ::
  "16 word \<Rightarrow> 32 word list \<Rightarrow> NetDevice list \<Rightarrow> (32 word \<rightharpoonup> imsi_t)" where
  "build_ipToImsi numUes ueIpIfaces ueDevs =
     foldl (ipToImsi_step ueIpIfaces ueDevs) Map.empty [0 ..< unat numUes]"

definition flowThroughputDl :: "real \<Rightarrow> FlowStats \<Rightarrow> real" where
  "flowThroughputDl currentTime st = real (unat (rxBytes st)) * 8 / (currentTime * 1000000)"

definition flowThroughputUl :: "real \<Rightarrow> FlowStats \<Rightarrow> real" where
  "flowThroughputUl currentTime st = real (unat (txBytes st)) * 8 / (currentTime * 1000000)"

text \<open>\<open>tot[imsi] += v\<close>: \<open>operator[]\<close> inserts 0.0 for a key that is not there yet.\<close>

definition add_to :: "(imsi_t \<rightharpoonup> real) \<Rightarrow> imsi_t \<Rightarrow> real \<Rightarrow> (imsi_t \<rightharpoonup> real)" where
  "add_to tot imsi v = tot(imsi \<mapsto> (case tot imsi of Some a \<Rightarrow> a | None \<Rightarrow> 0) + v)"

text \<open>The body of the loop over the flow statistics.\<close>

definition SampleThroughput_flow ::
  "real \<Rightarrow> (FlowId \<Rightarrow> FiveTuple) \<Rightarrow> (32 word \<rightharpoonup> imsi_t)
     \<Rightarrow> (imsi_t \<rightharpoonup> real) \<times> (imsi_t \<rightharpoonup> real) \<Rightarrow> FlowId \<times> FlowStats
     \<Rightarrow> (imsi_t \<rightharpoonup> real) \<times> (imsi_t \<rightharpoonup> real)" where
  "SampleThroughput_flow currentTime FindFlow ipToImsi totals it =
     (let t = FindFlow (fst it);
          totalThroughputDl = fst totals;
          totalThroughputUl = snd totals
      in if 0 < currentTime
         then (case ipToImsi (destinationAddress t) of
                 Some imsi \<Rightarrow> add_to totalThroughputDl imsi (flowThroughputDl currentTime (snd it))
               | None \<Rightarrow> totalThroughputDl,
               case ipToImsi (sourceAddress t) of
                 Some imsi \<Rightarrow> add_to totalThroughputUl imsi (flowThroughputUl currentTime (snd it))
               | None \<Rightarrow> totalThroughputUl)
         else (totalThroughputDl, totalThroughputUl))"

text \<open>
  One sample at simulated time \<open>currentTime\<close>. Writing every entry of a total into the
  global map is the override \<open>++\<close>.
\<close>

definition SampleThroughput ::
  "real \<Rightarrow> (FlowId \<times> FlowStats) list \<Rightarrow> (FlowId \<Rightarrow> FiveTuple) \<Rightarrow> NetDevice list
     \<Rightarrow> 32 word list \<Rightarrow> 16 word \<Rightarrow> state \<Rightarrow> state" where
  "SampleThroughput currentTime stats FindFlow ueDevs ueIpIfaces numUes s =
     (let ipToImsi = build_ipToImsi numUes ueIpIfaces ueDevs;
          totals = foldl (SampleThroughput_flow currentTime FindFlow ipToImsi)
                     (Map.empty, Map.empty) stats
      in s\<lparr>ueThroughputDl := ueThroughputDl s ++ fst totals,
           ueThroughputUl := ueThroughputUl s ++ snd totals\<rparr>)"

subsection \<open>The flow summary written by main\<close>

text \<open>
  A division of doubles. IEEE 754 gives an infinity or a NaN for a zero divisor, which
  is no real number: \<open>None\<close>.
\<close>

definition ddiv :: "real \<Rightarrow> real \<Rightarrow> real option" where
  "ddiv a b = (if b = 0 then None else Some (a / b))"

text \<open>The divisors of the two means; \<open>rxPackets - 1\<close> is computed in \<open>uint32_t\<close>.\<close>

definition delay_divisor :: "FlowStats \<Rightarrow> 32 word" where
  "delay_divisor st = rxPackets st"

definition jitter_divisor :: "FlowStats \<Rightarrow> 32 word" where
  "jitter_divisor st = rxPackets st - 1"

definition delayMean :: "FlowStats \<Rightarrow> real option" where
  "delayMean st =
     (if 0 < rxPackets st
      then map_option (\<lambda>q. q * 1000) (ddiv (delaySum st) (real (unat (delay_divisor st))))
      else Some 0)"

definition jitterMean :: "FlowStats \<Rightarrow> real option" where
  "jitterMean st =
     (if 0 < rxPackets st
      then map_option (\<lambda>q. q * 1000) (ddiv (jitterSum st) (real (unat (jitter_divisor st))))
      else Some 0)"

section \<open>Notions of the specification\<close>

text \<open>
  The specification speaks of the serving cell of an entity (the tracked value, 0 for
  "unassigned"), of the latest value broadcast at the serving cell when that cell is
  known, and of the chain entity-specific value, cell-broadcast value, hardcoded default.
  These three definitions follow its words; the theorems compare them with the code.
\<close>

definition spec_serving_cell :: "state \<Rightarrow> imsi_t \<Rightarrow> cell_t" where
  "spec_serving_cell s imsi = (case ueCurrentCell s imsi of Some c \<Rightarrow> c | None \<Rightarrow> 0)"

definition spec_cell_broadcast :: "(cell_t \<rightharpoonup> real) \<Rightarrow> cell_t \<Rightarrow> real option" where
  "spec_cell_broadcast latest servingCell = (if 0 < servingCell then latest servingCell else None)"

definition spec_fallback_chain :: "real option \<Rightarrow> real option \<Rightarrow> real \<Rightarrow> real" where
  "spec_fallback_chain entity_value cell_value hardcoded =
     (case entity_value of
        Some v \<Rightarrow> v
      | None \<Rightarrow> (case cell_value of Some c \<Rightarrow> c | None \<Rightarrow> hardcoded))"

text \<open>
  The flows that count towards an entity: those whose destination address (downlink) or
  source address (uplink) is bound to its IMSI. Two samples of a flow, taken at times
  \<open>t\<close> and \<open>t'\<close>, show the same rate when bytes over time agree in each direction; the
  equation is written without the division.
\<close>

definition downlink_flows ::
  "(FlowId \<Rightarrow> FiveTuple) \<Rightarrow> (32 word \<rightharpoonup> imsi_t) \<Rightarrow> imsi_t \<Rightarrow> (FlowId \<times> FlowStats) list
     \<Rightarrow> (FlowId \<times> FlowStats) list" where
  "downlink_flows FindFlow ipToImsi imsi stats =
     filter (\<lambda>it. ipToImsi (destinationAddress (FindFlow (fst it))) = Some imsi) stats"

definition uplink_flows ::
  "(FlowId \<Rightarrow> FiveTuple) \<Rightarrow> (32 word \<rightharpoonup> imsi_t) \<Rightarrow> imsi_t \<Rightarrow> (FlowId \<times> FlowStats) list
     \<Rightarrow> (FlowId \<times> FlowStats) list" where
  "uplink_flows FindFlow ipToImsi imsi stats =
     filter (\<lambda>it. ipToImsi (sourceAddress (FindFlow (fst it))) = Some imsi) stats"

definition same_rate :: "real \<Rightarrow> real \<Rightarrow> FlowId \<times> FlowStats \<Rightarrow> FlowId \<times> FlowStats \<Rightarrow> bool" where
  "same_rate t t' a b =
     (fst a = fst b
      \<and> real (unat (rxBytes (snd a))) * t' = real (unat (rxBytes (snd b))) * t
      \<and> real (unat (txBytes (snd a))) * t' = real (unat (txBytes (snd b))) * t)"

text \<open>A MEASUREMENT row as the specification describes it.\<close>

definition measurement_row :: "row \<Rightarrow> bool" where
  "measurement_row r =
     (Handover_Type r = ''MEASUREMENT'' \<and> Old_gNB_ID r = New_gNB_ID r
      \<and> RSRP_Old r = None \<and> RSRQ_Old r = None \<and> SINR_Old r = None)"

text \<open>
  The default tuple that the specification documents for an entity of which nothing was
  observed, read on the columns of a row.
\<close>

definition spec_default_tuple :: "row \<Rightarrow> bool" where
  "spec_default_tuple r =
     (Old_gNB_ID r = 0 \<and> New_gNB_ID r = 0
      \<and> RSRP_New r = - 100 \<and> RSRQ_New r = - 20 \<and> SINR_New r = 0
      \<and> Throughput_DL r = 0 \<and> Throughput_UL r = 0
      \<and> X_Position r = 0 \<and> Y_Position r = 0 \<and> Speed r = 0)"

section \<open>Runs of the simulation\<close>

text \<open>
  \<open>main\<close> connects the five callbacks to their trace sources and schedules the two
  samplers; the simulator then calls them in the order of simulated time. A run is the
  list of these calls with what the simulator passes to each.
\<close>

datatype event =
    HandoverStart imsi_t cell_t cell_t
  | HandoverEndOk real imsi_t cell_t
  | ConnectionEstablished imsi_t cell_t
  | ReportCurrentCellRsrpSinr cell_t real real
  | RecvMeasurementReport real imsi_t cell_t MeasResultPCell
  | EverySecond real "Node list" "NetDevice list"
  | ThroughputSample real "(FlowId \<times> FlowStats) list" "FlowId \<Rightarrow> FiveTuple" "NetDevice list"
      "32 word list" "16 word"

fun dispatch :: "event \<Rightarrow> state \<Rightarrow> state" where
  "dispatch (HandoverStart imsi cellid targetCellId) s =
     NotifyHandoverStartEnb imsi cellid targetCellId s"
| "dispatch (HandoverEndOk time imsi cellid) s = NotifyHandoverEndOkEnb time imsi cellid s"
| "dispatch (ConnectionEstablished imsi cellid) s = NotifyConnectionEstablishedUe imsi cellid s"
| "dispatch (ReportCurrentCellRsrpSinr cellId rsrp sinr) s = UePhyRsrpSinr cellId rsrp sinr s"
| "dispatch (RecvMeasurementReport time imsi cellId msg) s =
     NotifyRecvMeasurementReport time imsi cellId msg s"
| "dispatch (EverySecond time ueNodes ueDevs) s = LogEverySecond time ueNodes ueDevs s"
| "dispatch (ThroughputSample currentTime stats FindFlow ueDevs ueIpIfaces numUes) s =
     SampleThroughput currentTime stats FindFlow ueDevs ueIpIfaces numUes s"

fun run :: "event list \<Rightarrow> state \<Rightarrow> state" where
  "run [] s = s"
| "run (e # es) s = run es (dispatch e s)"

text \<open>
  An event that gives an entity an RSRP observation of its own: a measurement report of
  that entity. (No event gives an entity a SINR observation of its own; its SINR entry
  is only ever written by the cell-broadcast fallback.)
\<close>

fun entity_rsrp_observation :: "imsi_t \<Rightarrow> event \<Rightarrow> bool" where
  "entity_rsrp_observation imsi (RecvMeasurementReport time imsi' cellId msg) = (imsi' = imsi)"
| "entity_rsrp_observation imsi e = False"


text \<open>Example inputs for the closed theorems.\<close>

definition example_mobility :: MobilityModel where
  "example_mobility = \<lparr>GetPosition = Vector 5 7 0, GetVelocity = Vector 0 0 0\<rparr>"

definition example_attached :: state where
  "example_attached =
     UePhyRsrpSinr 3 (- 80) 12 (NotifyConnectionEstablishedUe 7 3 initial_state)"

definition example_nodes :: "Node list" where
  "example_nodes = [Some example_mobility, Some example_mobility, Some example_mobility]"

definition example_devs :: "NetDevice list" where
  "example_devs = [LteUeNetDevice 1, LteUeNetDevice 2, LteUeNetDevice 3]"

definition example_FindFlow :: "FlowId \<Rightarrow> FiveTuple" where
  "example_FindFlow flowId =
     \<lparr>sourceAddress = 10, destinationAddress = 20, protocol = 17,
      sourcePort = 49153, destinationPort = 9\<rparr>"

definition example_stats :: "64 word \<Rightarrow> (FlowId \<times> FlowStats) list" where
  "example_stats bytes =
     [(1, \<lparr>delaySum = 0, jitterSum = 0, txBytes = bytes, rxBytes = bytes,
           txPackets = 1, rxPackets = 1, lostPackets = 0\<rparr>)]"

definition example_report :: MeasResultPCell where
  "example_report = \<lparr>rsrpResult = 40, rsrqResult = 9\<rparr>"

definition example_events :: "event list" where
  "example_events =
     [ReportCurrentCellRsrpSinr 3 (- 60) 20,
      HandoverEndOk 1.5 7 4,
      RecvMeasurementReport 1.7 8 3 example_report,
      EverySecond 2 example_nodes example_devs]"

definition example_events_report :: "event list" where
  "example_events_report =
     [ReportCurrentCellRsrpSinr 3 (- 60) 20,
      RecvMeasurementReport 1.7 7 3 example_report]"

text \<open>A flow of which exactly one packet was received.\<close>

definition example_one_packet :: FlowStats where
  "example_one_packet =
     \<lparr>delaySum = 0.02, jitterSum = 0, txBytes = 1024, rxBytes = 1024,
      txPackets = 1, rxPackets = 1, lostPackets = 0\<rparr>"

section \<open>Handover notifications\<close>

text \<open>
  \<open>main\<close> creates the logger (\<open>g_logger = CreateObject<HandoverDataLogger> ()\<close>) before
  it connects any callback or schedules any sampler, and nothing resets the pointer. The
  callbacks therefore run with \<open>g_logger s = Some m_file\<close>, which the theorems about
  emitted rows take as their hypothesis.
\<close>

text \<open>
  C7. A handover-start notification sets the tracked serving cell of the entity to the
  reported source cell when none is tracked yet and keeps an already tracked cell; the
  tracked cells of all other entities, every other map of the state and the log are
  unchanged, so no record is emitted.
\<close>

theorem handover_start_first_seen:
  "ueCurrentCell (NotifyHandoverStartEnb imsi cellid targetCellId s) imsi
     = (case ueCurrentCell s imsi of None \<Rightarrow> Some cellid | Some c \<Rightarrow> Some c)
   \<and> (\<forall>other. other \<noteq> imsi \<longrightarrow>
          ueCurrentCell (NotifyHandoverStartEnb imsi cellid targetCellId s) other
            = ueCurrentCell s other)
   \<and> NotifyHandoverStartEnb imsi cellid targetCellId s
       = s\<lparr>ueCurrentCell := ueCurrentCell (NotifyHandoverStartEnb imsi cellid targetCellId s)\<rparr>
   \<and> g_logger (NotifyHandoverStartEnb imsi cellid targetCellId s) = g_logger s"
  by (simp add: NotifyHandoverStartEnb_def split: option.splits)

theorem handover_start_first_seen_witness:
  "ueCurrentCell (NotifyHandoverStartEnb 1 3 4 initial_state) 1 = Some 3
   \<and> ueCurrentCell (NotifyHandoverStartEnb 1 5 4 (NotifyHandoverStartEnb 1 3 4 initial_state)) 1
       = Some 3
   \<and> (2 :: imsi_t) \<noteq> 1
   \<and> ueCurrentCell (NotifyHandoverStartEnb 1 3 4 initial_state) 2 = None
   \<and> g_logger (NotifyHandoverStartEnb 1 3 4 initial_state) = Some []"
  using handover_start_first_seen [of 1 3 4 initial_state]
        handover_start_first_seen [of 1 5 4 "NotifyHandoverStartEnb 1 3 4 initial_state"]
  by (simp add: initial_state_def)

text \<open>
  C1. For an entity whose tracked serving cell is \<open>C1\<close>, a handover-complete
  notification that reports cell \<open>C2\<close> appends exactly one row to the log; the row is a
  HANDOVER row of that entity with old cell \<open>C1\<close> and new cell \<open>C2\<close>, its old and new
  link-quality columns hold the same values, and afterwards the tracked serving cell of
  the entity is \<open>C2\<close>.
\<close>

theorem handover_complete_tracked:
  assumes "ueCurrentCell s imsi = Some C1" and "g_logger s = Some m_file"
  shows "\<exists>r. g_logger (NotifyHandoverEndOkEnb time imsi C2 s) = Some (m_file @ [r])
            \<and> Handover_Type r = ''HANDOVER'' \<and> UE_ID r = imsi \<and> Time r = time
            \<and> Old_gNB_ID r = C1 \<and> New_gNB_ID r = C2
            \<and> RSRP_Old r = Some (RSRP_New r) \<and> RSRQ_Old r = Some (RSRQ_New r)
            \<and> SINR_Old r = Some (SINR_New r)
            \<and> ueCurrentCell (NotifyHandoverEndOkEnb time imsi C2 s) imsi = Some C2"
  using assms by (simp add: NotifyHandoverEndOkEnb_def LogHandover_def Let_def)

theorem handover_complete_tracked_witness:
  "ueCurrentCell (NotifyConnectionEstablishedUe 7 1 initial_state) 7 = Some 1
   \<and> g_logger (NotifyConnectionEstablishedUe 7 1 initial_state) = Some []
   \<and> (\<exists>r. g_logger (NotifyHandoverEndOkEnb 10 7 2 (NotifyConnectionEstablishedUe 7 1 initial_state))
              = Some [r]
          \<and> Handover_Type r = ''HANDOVER'' \<and> Old_gNB_ID r = 1 \<and> New_gNB_ID r = 2)
   \<and> ueCurrentCell (NotifyHandoverEndOkEnb 10 7 2 (NotifyConnectionEstablishedUe 7 1 initial_state)) 7
       = Some 2"
proof -
  let ?s = "NotifyConnectionEstablishedUe 7 1 initial_state"
  have tracked: "ueCurrentCell ?s 7 = Some 1"
    by (simp add: NotifyConnectionEstablishedUe_def initial_state_def)
  have logger: "g_logger ?s = Some []"
    by (simp add: NotifyConnectionEstablishedUe_def initial_state_def)
  from handover_complete_tracked [OF tracked logger, of 10 2] tracked logger
  show ?thesis by auto
qed

text \<open>
  C2. For an entity with no tracked serving cell, a handover-complete notification
  appends exactly one row; it is a HANDOVER row whose old and new cell are both the
  reported cell. The handler has no failing branch: it is a total function on states,
  and afterwards the reported cell is the tracked serving cell.
\<close>

theorem handover_complete_untracked:
  assumes "ueCurrentCell s imsi = None" and "g_logger s = Some m_file"
  shows "\<exists>r. g_logger (NotifyHandoverEndOkEnb time imsi cellid s) = Some (m_file @ [r])
            \<and> Handover_Type r = ''HANDOVER'' \<and> UE_ID r = imsi \<and> Time r = time
            \<and> Old_gNB_ID r = cellid \<and> New_gNB_ID r = cellid
            \<and> ueCurrentCell (NotifyHandoverEndOkEnb time imsi cellid s) imsi = Some cellid"
  using assms by (simp add: NotifyHandoverEndOkEnb_def LogHandover_def Let_def)

theorem handover_complete_untracked_witness:
  "ueCurrentCell initial_state 7 = None
   \<and> g_logger initial_state = Some []
   \<and> (\<exists>r. g_logger (NotifyHandoverEndOkEnb 10 7 2 initial_state) = Some [r]
          \<and> Handover_Type r = ''HANDOVER'' \<and> Old_gNB_ID r = 2 \<and> New_gNB_ID r = 2)
   \<and> ueCurrentCell (NotifyHandoverEndOkEnb 10 7 2 initial_state) 7 = Some 2"
proof -
  have untracked: "ueCurrentCell initial_state 7 = None"
    by (simp add: initial_state_def)
  have logger: "g_logger initial_state = Some []"
    by (simp add: initial_state_def)
  from handover_complete_untracked [OF untracked logger, of 10 2] untracked logger
  show ?thesis by auto
qed

section \<open>Measurement reports\<close>

lemma real_unat_less: "a < b \<Longrightarrow> real (unat a) < real (unat b)"
  unfolding word_less_nat_alt of_nat_less_iff .

lemma report_rsrp:
  "ueLastRsrp (NotifyRecvMeasurementReport time imsi cellId msg s) imsi
     = Some (- 140 + real (unat (rsrpResult msg)))"
  by (simp add: NotifyRecvMeasurementReport_def Let_def split: option.splits prod.splits)

lemma report_rsrq:
  "ueLastRsrq (NotifyRecvMeasurementReport time imsi cellId msg s) imsi
     = Some (- 19.5 + real (unat (rsrqResult msg)) / 2)"
  by (simp add: NotifyRecvMeasurementReport_def Let_def split: option.splits prod.splits)

lemma report_row:
  "g_logger s = Some m_file \<Longrightarrow>
   \<exists>r. g_logger (NotifyRecvMeasurementReport time imsi cellId msg s) = Some (m_file @ [r])
      \<and> Handover_Type r = ''MEASUREMENT'' \<and> UE_ID r = imsi
      \<and> Old_gNB_ID r = cellId \<and> New_gNB_ID r = cellId
      \<and> RSRP_Old r = None \<and> RSRQ_Old r = None \<and> SINR_Old r = None
      \<and> RSRP_New r = - 140 + real (unat (rsrpResult msg))
      \<and> RSRQ_New r = - 19.5 + real (unat (rsrqResult msg)) / 2"
  by (simp add: NotifyRecvMeasurementReport_def LogMeasurement_def Let_def
           split: option.splits prod.splits)

text \<open>
  C3. For every code \<open>v\<close> of the eight-bit field (0 to 255) the measurement-report
  handler stores, and writes into the row it emits, RSRP \<open>v - 140\<close> and RSRQ
  \<open>- 19.5 + v / 2\<close>. Code 0 gives \<open>- 140\<close> and \<open>- 19.5\<close>, code 255 gives 115 and 108,
  and a larger code gives a larger decoded value, for both quantities. All these values
  are integers or half-integers below 256 in size, which a double represents exactly.
\<close>

theorem measurement_report_decoding:
  "ueLastRsrp (NotifyRecvMeasurementReport time imsi cellId msg s) imsi
     = Some (real (unat (rsrpResult msg)) - 140)
   \<and> ueLastRsrq (NotifyRecvMeasurementReport time imsi cellId msg s) imsi
     = Some (- 19.5 + real (unat (rsrqResult msg)) / 2)
   \<and> (\<forall>m_file. g_logger s = Some m_file \<longrightarrow>
        (\<exists>r. g_logger (NotifyRecvMeasurementReport time imsi cellId msg s) = Some (m_file @ [r])
            \<and> RSRP_New r = real (unat (rsrpResult msg)) - 140
            \<and> RSRQ_New r = - 19.5 + real (unat (rsrqResult msg)) / 2))
   \<and> ueLastRsrp (NotifyRecvMeasurementReport time imsi cellId (msg\<lparr>rsrpResult := 0\<rparr>) s) imsi
     = Some (- 140)
   \<and> ueLastRsrq (NotifyRecvMeasurementReport time imsi cellId (msg\<lparr>rsrqResult := 0\<rparr>) s) imsi
     = Some (- 19.5)
   \<and> ueLastRsrp (NotifyRecvMeasurementReport time imsi cellId (msg\<lparr>rsrpResult := 255\<rparr>) s) imsi
     = Some 115
   \<and> ueLastRsrq (NotifyRecvMeasurementReport time imsi cellId (msg\<lparr>rsrqResult := 255\<rparr>) s) imsi
     = Some 108
   \<and> (\<forall>msg'. rsrpResult msg < rsrpResult msg' \<longrightarrow>
        the (ueLastRsrp (NotifyRecvMeasurementReport time imsi cellId msg s) imsi)
          < the (ueLastRsrp (NotifyRecvMeasurementReport time imsi cellId msg' s) imsi))
   \<and> (\<forall>msg'. rsrqResult msg < rsrqResult msg' \<longrightarrow>
        the (ueLastRsrq (NotifyRecvMeasurementReport time imsi cellId msg s) imsi)
          < the (ueLastRsrq (NotifyRecvMeasurementReport time imsi cellId msg' s) imsi))"
proof -
  have row: "\<forall>m_file. g_logger s = Some m_file \<longrightarrow>
        (\<exists>r. g_logger (NotifyRecvMeasurementReport time imsi cellId msg s) = Some (m_file @ [r])
            \<and> RSRP_New r = real (unat (rsrpResult msg)) - 140
            \<and> RSRQ_New r = - 19.5 + real (unat (rsrqResult msg)) / 2)"
  proof (intro allI impI)
    fix m_file assume "g_logger s = Some m_file"
    from report_row [OF this, of time imsi cellId msg]
    show "\<exists>r. g_logger (NotifyRecvMeasurementReport time imsi cellId msg s) = Some (m_file @ [r])
            \<and> RSRP_New r = real (unat (rsrpResult msg)) - 140
            \<and> RSRQ_New r = - 19.5 + real (unat (rsrqResult msg)) / 2"
      by auto
  qed
  have mono_p: "\<forall>msg'. rsrpResult msg < rsrpResult msg' \<longrightarrow>
        the (ueLastRsrp (NotifyRecvMeasurementReport time imsi cellId msg s) imsi)
          < the (ueLastRsrp (NotifyRecvMeasurementReport time imsi cellId msg' s) imsi)"
    using real_unat_less [of "rsrpResult msg"] by (simp add: report_rsrp del: of_nat_unat)
  have mono_q: "\<forall>msg'. rsrqResult msg < rsrqResult msg' \<longrightarrow>
        the (ueLastRsrq (NotifyRecvMeasurementReport time imsi cellId msg s) imsi)
          < the (ueLastRsrq (NotifyRecvMeasurementReport time imsi cellId msg' s) imsi)"
    using real_unat_less [of "rsrqResult msg"] by (simp add: report_rsrq del: of_nat_unat)
  show ?thesis
    by (intro conjI row mono_p mono_q) (simp_all add: report_rsrp report_rsrq)
qed

theorem measurement_report_decoding_witness:
  "g_logger initial_state = Some []
   \<and> (\<exists>r. g_logger (NotifyRecvMeasurementReport 2 7 1 \<lparr>rsrpResult = 40, rsrqResult = 9\<rparr> initial_state)
            = Some [r] \<and> RSRP_New r = - 100 \<and> RSRQ_New r = - 15)
   \<and> rsrpResult \<lparr>rsrpResult = 40, rsrqResult = 9\<rparr> < rsrpResult \<lparr>rsrpResult = 41, rsrqResult = 9\<rparr>
   \<and> the (ueLastRsrp (NotifyRecvMeasurementReport 2 7 1 \<lparr>rsrpResult = 40, rsrqResult = 9\<rparr> initial_state) 7)
       < the (ueLastRsrp (NotifyRecvMeasurementReport 2 7 1 \<lparr>rsrpResult = 41, rsrqResult = 9\<rparr> initial_state) 7)
   \<and> rsrqResult \<lparr>rsrpResult = 40, rsrqResult = 9\<rparr> < rsrqResult \<lparr>rsrpResult = 40, rsrqResult = 10\<rparr>
   \<and> the (ueLastRsrq (NotifyRecvMeasurementReport 2 7 1 \<lparr>rsrpResult = 40, rsrqResult = 9\<rparr> initial_state) 7)
       < the (ueLastRsrq (NotifyRecvMeasurementReport 2 7 1 \<lparr>rsrpResult = 40, rsrqResult = 10\<rparr> initial_state) 7)"
proof -
  let ?m = "\<lparr>rsrpResult = 40, rsrqResult = 9\<rparr>"
  have logger: "g_logger initial_state = Some []" by (simp add: initial_state_def)
  have lt_p: "rsrpResult ?m < rsrpResult \<lparr>rsrpResult = 41, rsrqResult = 9\<rparr>" by simp
  have lt_q: "rsrqResult ?m < rsrqResult \<lparr>rsrpResult = 40, rsrqResult = 10\<rparr>" by simp
  note inst = measurement_report_decoding [of 2 7 1 ?m initial_state]
  from inst logger have row: "\<exists>r. g_logger (NotifyRecvMeasurementReport 2 7 1 ?m initial_state)
            = Some [r] \<and> RSRP_New r = - 100 \<and> RSRQ_New r = - 15"
    by auto
  from inst lt_p have p: "the (ueLastRsrp (NotifyRecvMeasurementReport 2 7 1 ?m initial_state) 7)
       < the (ueLastRsrp (NotifyRecvMeasurementReport 2 7 1 \<lparr>rsrpResult = 41, rsrqResult = 9\<rparr> initial_state) 7)"
    by blast
  from inst lt_q have q: "the (ueLastRsrq (NotifyRecvMeasurementReport 2 7 1 ?m initial_state) 7)
       < the (ueLastRsrq (NotifyRecvMeasurementReport 2 7 1 \<lparr>rsrpResult = 40, rsrqResult = 10\<rparr> initial_state) 7)"
    by blast
  from logger row lt_p p lt_q q show ?thesis by blast
qed

section \<open>The snapshot sampler\<close>

lemma tick_node_row:
  assumes "g_logger s = Some m_file"
  shows "\<exists>r. g_logger (LogEverySecond_node time ueDevs i (Some mobility) s) = Some (m_file @ [r])
     \<and> Handover_Type r = ''MEASUREMENT'' \<and> Time r = time
     \<and> UE_ID r = LogEverySecond_imsi ueDevs i
     \<and> Old_gNB_ID r = spec_serving_cell s (LogEverySecond_imsi ueDevs i)
     \<and> New_gNB_ID r = spec_serving_cell s (LogEverySecond_imsi ueDevs i)
     \<and> RSRP_Old r = None \<and> RSRQ_Old r = None \<and> SINR_Old r = None
     \<and> RSRP_New r = spec_fallback_chain (ueLastRsrp s (LogEverySecond_imsi ueDevs i))
                       (spec_cell_broadcast (cellRsrp s)
                          (spec_serving_cell s (LogEverySecond_imsi ueDevs i))) (- 100)
     \<and> RSRQ_New r = (case ueLastRsrq s (LogEverySecond_imsi ueDevs i) of
                       Some v \<Rightarrow> v | None \<Rightarrow> - 20)
     \<and> SINR_New r = spec_fallback_chain (ueLastSinr s (LogEverySecond_imsi ueDevs i))
                       (spec_cell_broadcast (cellSinr s)
                          (spec_serving_cell s (LogEverySecond_imsi ueDevs i))) 0
     \<and> Throughput_DL r = (case ueThroughputDl s (LogEverySecond_imsi ueDevs i) of
                       Some v \<Rightarrow> v | None \<Rightarrow> 0)
     \<and> Throughput_UL r = (case ueThroughputUl s (LogEverySecond_imsi ueDevs i) of
                       Some v \<Rightarrow> v | None \<Rightarrow> 0)
     \<and> X_Position r = vec_x (GetPosition mobility)
     \<and> Y_Position r = vec_y (GetPosition mobility)
     \<and> Speed r = sqrt (vec_x (GetVelocity mobility) * vec_x (GetVelocity mobility)
                       + vec_y (GetVelocity mobility) * vec_y (GetVelocity mobility))"
  using assms
  by (simp add: LogEverySecond_node_def LogMeasurement_def Let_def spec_serving_cell_def
        spec_cell_broadcast_def spec_fallback_chain_def split: option.splits prod.splits)

lemma tick_node_maps:
  assumes "g_logger s = Some m_file"
  shows "ueLastRsrp (LogEverySecond_node time ueDevs i (Some mobility) s)
       = (case ueLastRsrp s (LogEverySecond_imsi ueDevs i) of
            Some v \<Rightarrow> ueLastRsrp s
          | None \<Rightarrow> (case spec_cell_broadcast (cellRsrp s)
                             (spec_serving_cell s (LogEverySecond_imsi ueDevs i)) of
                      Some c \<Rightarrow> (ueLastRsrp s)(LogEverySecond_imsi ueDevs i \<mapsto> c)
                    | None \<Rightarrow> ueLastRsrp s))"
    and "ueLastSinr (LogEverySecond_node time ueDevs i (Some mobility) s)
       = (case ueLastSinr s (LogEverySecond_imsi ueDevs i) of
            Some v \<Rightarrow> ueLastSinr s
          | None \<Rightarrow> (case spec_cell_broadcast (cellSinr s)
                             (spec_serving_cell s (LogEverySecond_imsi ueDevs i)) of
                      Some c \<Rightarrow> (ueLastSinr s)(LogEverySecond_imsi ueDevs i \<mapsto> c)
                    | None \<Rightarrow> ueLastSinr s))"
    and "ueLastRsrq (LogEverySecond_node time ueDevs i (Some mobility) s) = ueLastRsrq s"
    and "ueCurrentCell (LogEverySecond_node time ueDevs i (Some mobility) s) = ueCurrentCell s"
    and "cellRsrp (LogEverySecond_node time ueDevs i (Some mobility) s) = cellRsrp s"
    and "cellSinr (LogEverySecond_node time ueDevs i (Some mobility) s) = cellSinr s"
  using assms
  by (auto simp add: LogEverySecond_node_def LogMeasurement_def Let_def spec_serving_cell_def
        spec_cell_broadcast_def spec_fallback_chain_def split: option.splits prod.splits)

lemma serving_cell_cong:
  "ueCurrentCell s' = ueCurrentCell s \<Longrightarrow> spec_serving_cell s' = spec_serving_cell s"
  by (rule ext) (simp add: spec_serving_cell_def)














lemma node_rows:
  assumes "g_logger s = Some m_file"
  shows "\<exists>rows. g_logger (LogEverySecond_node time ueDevs i node s) = Some (m_file @ rows)
           \<and> ueCurrentCell (LogEverySecond_node time ueDevs i node s) = ueCurrentCell s
           \<and> (\<forall>r \<in> set rows. measurement_row r
                 \<and> New_gNB_ID r = spec_serving_cell s (UE_ID r))"
proof (cases node)
  case None
  with assms show ?thesis by (simp add: LogEverySecond_node_def)
next
  case (Some mobility)
  from tick_node_row [OF assms, of time ueDevs i mobility]
  obtain r where "g_logger (LogEverySecond_node time ueDevs i (Some mobility) s) = Some (m_file @ [r])"
      and "measurement_row r"
      and "New_gNB_ID r = spec_serving_cell s (UE_ID r)"
    by (auto simp add: measurement_row_def)
  with Some tick_node_maps(4) [OF assms, of time ueDevs i mobility]
  show ?thesis by (intro exI [of _ "[r]"]) simp
qed

lemma loop_rows:
  assumes "g_logger s = Some m_file"
  shows "\<exists>rows. g_logger (LogEverySecond_loop time ueDevs i ueNodes s) = Some (m_file @ rows)
           \<and> ueCurrentCell (LogEverySecond_loop time ueDevs i ueNodes s) = ueCurrentCell s
           \<and> (\<forall>r \<in> set rows. measurement_row r
                 \<and> New_gNB_ID r = spec_serving_cell s (UE_ID r))"
  using assms
proof (induction ueNodes arbitrary: i s m_file)
  case Nil
  then show ?case by simp
next
  case (Cons node rest)
  let ?s1 = "LogEverySecond_node time ueDevs i node s"
  from node_rows [OF Cons.prems, of time ueDevs i node]
  obtain rows1 where rows1: "g_logger ?s1 = Some (m_file @ rows1)"
      "ueCurrentCell ?s1 = ueCurrentCell s"
      "\<forall>r \<in> set rows1. measurement_row r \<and> New_gNB_ID r = spec_serving_cell s (UE_ID r)"
    by blast
  from Cons.IH [OF rows1(1), of "Suc i"]
  obtain rows2 where rows2:
      "g_logger (LogEverySecond_loop time ueDevs (Suc i) rest ?s1) = Some ((m_file @ rows1) @ rows2)"
      "ueCurrentCell (LogEverySecond_loop time ueDevs (Suc i) rest ?s1) = ueCurrentCell ?s1"
      "\<forall>r \<in> set rows2. measurement_row r \<and> New_gNB_ID r = spec_serving_cell ?s1 (UE_ID r)"
    by blast
  from rows1 rows2 show ?case
    by (intro exI [of _ "rows1 @ rows2"]) (auto simp add: serving_cell_cong [OF rows1(2)])
qed

lemma dispatch_rows:
  assumes "g_logger s = Some m_file"
  shows "\<exists>rows. g_logger (dispatch e s) = Some (m_file @ rows)
     \<and> (\<forall>r \<in> set rows. Handover_Type r = ''MEASUREMENT'' \<longrightarrow>
           (case e of
              EverySecond time ueNodes ueDevs \<Rightarrow> New_gNB_ID r = spec_serving_cell s (UE_ID r)
            | RecvMeasurementReport time imsi cellId msg \<Rightarrow> UE_ID r = imsi \<and> New_gNB_ID r = cellId
            | _ \<Rightarrow> False))"
proof (cases e)
  case (HandoverStart imsi cellid targetCellId)
  with assms show ?thesis by (simp add: NotifyHandoverStartEnb_def)
next
  case (HandoverEndOk time imsi cellid)
  have "\<exists>r. g_logger (NotifyHandoverEndOkEnb time imsi cellid s) = Some (m_file @ [r])
          \<and> Handover_Type r = ''HANDOVER''"
    using assms by (simp add: NotifyHandoverEndOkEnb_def LogHandover_def Let_def)
  then obtain r where "g_logger (NotifyHandoverEndOkEnb time imsi cellid s) = Some (m_file @ [r])"
      and "Handover_Type r = ''HANDOVER''"
    by blast
  with HandoverEndOk show ?thesis by (intro exI [of _ "[r]"]) simp
next
  case (ConnectionEstablished imsi cellid)
  with assms show ?thesis by (simp add: NotifyConnectionEstablishedUe_def)
next
  case (ReportCurrentCellRsrpSinr cellId rsrp sinr)
  with assms show ?thesis by (simp add: UePhyRsrpSinr_def)
next
  case (RecvMeasurementReport time imsi cellId msg)
  from report_row [OF assms, of time imsi cellId msg]
  obtain r where "g_logger (NotifyRecvMeasurementReport time imsi cellId msg s) = Some (m_file @ [r])"
      and "UE_ID r = imsi" and "New_gNB_ID r = cellId"
    by blast
  with RecvMeasurementReport show ?thesis by (intro exI [of _ "[r]"]) simp
next
  case (EverySecond time ueNodes ueDevs)
  from loop_rows [OF assms, of time ueDevs 0 ueNodes]
  obtain rows where "g_logger (LogEverySecond time ueNodes ueDevs s) = Some (m_file @ rows)"
      and "\<forall>r \<in> set rows. measurement_row r \<and> New_gNB_ID r = spec_serving_cell s (UE_ID r)"
    unfolding LogEverySecond_def by blast
  with EverySecond show ?thesis by (intro exI [of _ rows]) simp
next
  case (ThroughputSample currentTime stats FindFlow ueDevs ueIpIfaces numUes)
  with assms show ?thesis by (simp add: SampleThroughput_def Let_def)
qed

lemma run_keeps_logger:
  "g_logger s = Some m_file \<Longrightarrow> \<exists>rows. g_logger (run events s) = Some (m_file @ rows)"
proof (induction events arbitrary: s m_file)
  case Nil
  then show ?case by simp
next
  case (Cons e events)
  from dispatch_rows [OF Cons.prems, of e]
  obtain rows1 where "g_logger (dispatch e s) = Some (m_file @ rows1)" by blast
  from Cons.IH [OF this] show ?case by auto
qed


lemma example_attached_maps:
  "g_logger example_attached = Some []"
  "ueLastRsrp example_attached 7 = None"
  "ueLastRsrq example_attached 7 = None"
  "ueLastSinr example_attached 7 = None"
  "ueCurrentCell example_attached 7 = Some 3"
  "cellRsrp example_attached 3 = Some (- 80)"
  "cellSinr example_attached 3 = Some 12"
  by (simp_all add: example_attached_def UePhyRsrpSinr_def NotifyConnectionEstablishedUe_def
        initial_state_def)

lemma example_dev: "LogEverySecond_imsi [LteUeNetDevice 7] 0 = 7"
  by (simp add: LogEverySecond_imsi_def)

text \<open>
  C4, as amended. For an entity that is in none of the maps, every column that a row
  takes from the state has its documented default, and the other columns carry what the
  triggering call observes. The snapshot row of a tick has serving cell 0, RSRP
  \<open>- 100\<close>, RSRQ \<open>- 20\<close>, SINR 0 and both throughputs 0, and its position and speed
  are those read from the mobility model at that tick. The row of a handover-complete
  notification has RSRP \<open>- 100\<close>, RSRQ \<open>- 20\<close>, SINR 0, both throughputs 0, position
  (0, 0) and speed 0, and both its cell columns carry the cell reported by the
  notification.
\<close>

theorem unobserved_entity_defaults:
  assumes "ueCurrentCell s imsi = None" and "ueLastPosition s imsi = None"
      and "ueLastSpeed s imsi = None"
      and "ueThroughputDl s imsi = None" and "ueThroughputUl s imsi = None"
      and "ueLastRsrp s imsi = None" and "ueLastRsrq s imsi = None"
      and "ueLastSinr s imsi = None"
      and "g_logger s = Some m_file"
      and "LogEverySecond_imsi ueDevs i = imsi"
  shows "(\<exists>r. g_logger (LogEverySecond_node time ueDevs i (Some mobility) s) = Some (m_file @ [r])
            \<and> UE_ID r = imsi \<and> Old_gNB_ID r = 0 \<and> New_gNB_ID r = 0
            \<and> RSRP_New r = - 100 \<and> RSRQ_New r = - 20 \<and> SINR_New r = 0
            \<and> Throughput_DL r = 0 \<and> Throughput_UL r = 0
            \<and> X_Position r = vec_x (GetPosition mobility)
            \<and> Y_Position r = vec_y (GetPosition mobility)
            \<and> Speed r = sqrt (vec_x (GetVelocity mobility) * vec_x (GetVelocity mobility)
                              + vec_y (GetVelocity mobility) * vec_y (GetVelocity mobility)))
       \<and> (\<exists>r. g_logger (NotifyHandoverEndOkEnb time imsi cellid s) = Some (m_file @ [r])
            \<and> UE_ID r = imsi \<and> Old_gNB_ID r = cellid \<and> New_gNB_ID r = cellid
            \<and> RSRP_Old r = Some (- 100) \<and> RSRP_New r = - 100
            \<and> RSRQ_Old r = Some (- 20) \<and> RSRQ_New r = - 20
            \<and> SINR_Old r = Some 0 \<and> SINR_New r = 0
            \<and> Throughput_DL r = 0 \<and> Throughput_UL r = 0
            \<and> X_Position r = 0 \<and> Y_Position r = 0 \<and> Speed r = 0)"
proof
  from tick_node_row [OF assms(9), of time ueDevs i mobility] assms
  show "\<exists>r. g_logger (LogEverySecond_node time ueDevs i (Some mobility) s) = Some (m_file @ [r])
            \<and> UE_ID r = imsi \<and> Old_gNB_ID r = 0 \<and> New_gNB_ID r = 0
            \<and> RSRP_New r = - 100 \<and> RSRQ_New r = - 20 \<and> SINR_New r = 0
            \<and> Throughput_DL r = 0 \<and> Throughput_UL r = 0
            \<and> X_Position r = vec_x (GetPosition mobility)
            \<and> Y_Position r = vec_y (GetPosition mobility)
            \<and> Speed r = sqrt (vec_x (GetVelocity mobility) * vec_x (GetVelocity mobility)
                              + vec_y (GetVelocity mobility) * vec_y (GetVelocity mobility))"
    by (auto simp add: spec_serving_cell_def spec_cell_broadcast_def spec_fallback_chain_def)
next
  from assms
  show "\<exists>r. g_logger (NotifyHandoverEndOkEnb time imsi cellid s) = Some (m_file @ [r])
            \<and> UE_ID r = imsi \<and> Old_gNB_ID r = cellid \<and> New_gNB_ID r = cellid
            \<and> RSRP_Old r = Some (- 100) \<and> RSRP_New r = - 100
            \<and> RSRQ_Old r = Some (- 20) \<and> RSRQ_New r = - 20
            \<and> SINR_Old r = Some 0 \<and> SINR_New r = 0
            \<and> Throughput_DL r = 0 \<and> Throughput_UL r = 0
            \<and> X_Position r = 0 \<and> Y_Position r = 0 \<and> Speed r = 0"
    by (simp add: NotifyHandoverEndOkEnb_def LogHandover_def Let_def)
qed

theorem unobserved_entity_defaults_witness:
  "LogEverySecond_imsi [LteUeNetDevice 7] 0 = 7
   \<and> g_logger initial_state = Some []
   \<and> ueCurrentCell initial_state 7 = None \<and> ueLastRsrp initial_state 7 = None
   \<and> (\<exists>r. g_logger (LogEverySecond_node 1 [LteUeNetDevice 7] 0 (Some example_mobility) initial_state)
             = Some [r]
          \<and> New_gNB_ID r = 0 \<and> RSRP_New r = - 100 \<and> RSRQ_New r = - 20 \<and> SINR_New r = 0
          \<and> X_Position r = 5 \<and> Y_Position r = 7 \<and> Speed r = 0)
   \<and> (\<exists>r. g_logger (NotifyHandoverEndOkEnb 1 7 2 initial_state) = Some [r]
          \<and> Old_gNB_ID r = 2 \<and> New_gNB_ID r = 2
          \<and> RSRP_New r = - 100 \<and> X_Position r = 0 \<and> Y_Position r = 0 \<and> Speed r = 0)"
proof -
  have dev: "LogEverySecond_imsi [LteUeNetDevice 7] 0 = 7"
    by (simp add: LogEverySecond_imsi_def)
  have logger: "g_logger initial_state = Some []" by (simp add: initial_state_def)
  have none: "ueCurrentCell initial_state 7 = None" "ueLastPosition initial_state 7 = None"
      "ueLastSpeed initial_state 7 = None" "ueThroughputDl initial_state 7 = None"
      "ueThroughputUl initial_state 7 = None" "ueLastRsrp initial_state 7 = None"
      "ueLastRsrq initial_state 7 = None" "ueLastSinr initial_state 7 = None"
    by (simp_all add: initial_state_def)
  from unobserved_entity_defaults [OF none logger dev, of 1 example_mobility 2] dev logger none
  show ?thesis by (auto simp add: example_mobility_def)
qed

text \<open>
  C4 as stated fails: no row carries the whole default tuple. For entity 7, of which
  nothing was observed, the snapshot row of the tick has the position (5, 7) of its
  mobility model, and the row of the handover-complete notification has the reported
  cell 2 in both cell columns.
\<close>

theorem default_tuple_counterexample:
  "ueCurrentCell initial_state 7 = None \<and> ueLastPosition initial_state 7 = None
   \<and> ueLastSpeed initial_state 7 = None \<and> ueThroughputDl initial_state 7 = None
   \<and> ueThroughputUl initial_state 7 = None \<and> ueLastRsrp initial_state 7 = None
   \<and> ueLastRsrq initial_state 7 = None \<and> ueLastSinr initial_state 7 = None
   \<and> (\<exists>r. g_logger (LogEverySecond_node 1 [LteUeNetDevice 7] 0 (Some example_mobility) initial_state)
             = Some [r]
          \<and> UE_ID r = 7 \<and> X_Position r = 5 \<and> Y_Position r = 7 \<and> \<not> spec_default_tuple r)
   \<and> (\<exists>r. g_logger (NotifyHandoverEndOkEnb 1 7 2 initial_state) = Some [r]
          \<and> UE_ID r = 7 \<and> Old_gNB_ID r = 2 \<and> New_gNB_ID r = 2 \<and> \<not> spec_default_tuple r)"
proof -
  have logger: "g_logger initial_state = Some []" by (simp add: initial_state_def)
  have none: "ueCurrentCell initial_state 7 = None \<and> ueLastPosition initial_state 7 = None
   \<and> ueLastSpeed initial_state 7 = None \<and> ueThroughputDl initial_state 7 = None
   \<and> ueThroughputUl initial_state 7 = None \<and> ueLastRsrp initial_state 7 = None
   \<and> ueLastRsrq initial_state 7 = None \<and> ueLastSinr initial_state 7 = None"
    by (simp add: initial_state_def)
  from tick_node_row [OF logger, of 1 "[LteUeNetDevice 7]" 0 example_mobility]
  obtain r where r: "g_logger (LogEverySecond_node 1 [LteUeNetDevice 7] 0 (Some example_mobility)
                       initial_state) = Some [r]"
      "UE_ID r = 7" "X_Position r = 5" "Y_Position r = 7"
    by (auto simp add: example_dev example_mobility_def)
  then have tick: "\<exists>r. g_logger (LogEverySecond_node 1 [LteUeNetDevice 7] 0 (Some example_mobility)
                       initial_state) = Some [r]
          \<and> UE_ID r = 7 \<and> X_Position r = 5 \<and> Y_Position r = 7 \<and> \<not> spec_default_tuple r"
    by (intro exI [of _ r]) (simp add: spec_default_tuple_def)
  have ho: "\<exists>r. g_logger (NotifyHandoverEndOkEnb 1 7 2 initial_state) = Some [r]
          \<and> UE_ID r = 7 \<and> Old_gNB_ID r = 2 \<and> New_gNB_ID r = 2 \<and> \<not> spec_default_tuple r"
    by (simp add: NotifyHandoverEndOkEnb_def LogHandover_def Let_def initial_state_def
          spec_default_tuple_def)
  from none tick ho show ?thesis by blast
qed

text \<open>
  C5. On a snapshot tick each of RSRP, RSRQ and SINR of an entity is resolved by the
  same three-step chain: the entity's own last value, otherwise the latest value
  broadcast at its serving cell when that cell is known (not 0) and has one, otherwise
  the default (\<open>- 100\<close>, \<open>- 20\<close>, 0). For RSRP and SINR the cell values are the maps
  \<open>cellRsrp\<close> and \<open>cellSinr\<close>. The program keeps no RSRQ per cell, so for RSRQ the
  serving cell never has a value and the chain always passes its middle step.
\<close>

theorem snapshot_fallback_chains:
  assumes "g_logger s = Some m_file"
  shows "\<exists>r. g_logger (LogEverySecond_node time ueDevs i (Some mobility) s) = Some (m_file @ [r])
     \<and> UE_ID r = LogEverySecond_imsi ueDevs i
     \<and> RSRP_New r = spec_fallback_chain (ueLastRsrp s (UE_ID r))
                       (spec_cell_broadcast (cellRsrp s) (spec_serving_cell s (UE_ID r))) (- 100)
     \<and> SINR_New r = spec_fallback_chain (ueLastSinr s (UE_ID r))
                       (spec_cell_broadcast (cellSinr s) (spec_serving_cell s (UE_ID r))) 0
     \<and> RSRQ_New r = spec_fallback_chain (ueLastRsrq s (UE_ID r)) None (- 20)"
proof -
  from tick_node_row [OF assms, of time ueDevs i mobility]
  obtain r where r:
      "g_logger (LogEverySecond_node time ueDevs i (Some mobility) s) = Some (m_file @ [r])"
      "UE_ID r = LogEverySecond_imsi ueDevs i"
      "RSRP_New r = spec_fallback_chain (ueLastRsrp s (LogEverySecond_imsi ueDevs i))
                       (spec_cell_broadcast (cellRsrp s)
                          (spec_serving_cell s (LogEverySecond_imsi ueDevs i))) (- 100)"
      "RSRQ_New r = (case ueLastRsrq s (LogEverySecond_imsi ueDevs i) of
                       Some v \<Rightarrow> v | None \<Rightarrow> - 20)"
      "SINR_New r = spec_fallback_chain (ueLastSinr s (LogEverySecond_imsi ueDevs i))
                       (spec_cell_broadcast (cellSinr s)
                          (spec_serving_cell s (LogEverySecond_imsi ueDevs i))) 0"
    by blast
  have "RSRQ_New r = spec_fallback_chain (ueLastRsrq s (UE_ID r)) None (- 20)"
    using r(2,4) by (simp add: spec_fallback_chain_def split: option.splits)
  with r show ?thesis by auto
qed

theorem snapshot_fallback_chains_witness:
  "g_logger example_attached = Some []
   \<and> (\<exists>r. g_logger (LogEverySecond_node 1 [LteUeNetDevice 7] 0 (Some example_mobility)
                      example_attached) = Some [r]
          \<and> UE_ID r = 7 \<and> RSRP_New r = - 80 \<and> SINR_New r = 12 \<and> RSRQ_New r = - 20)"
proof -
  have logger: "g_logger example_attached = Some []"
    by (simp add: example_attached_def UePhyRsrpSinr_def NotifyConnectionEstablishedUe_def
          initial_state_def)
  have dev: "LogEverySecond_imsi [LteUeNetDevice 7] 0 = 7"
    by (simp add: LogEverySecond_imsi_def)
  have maps: "ueLastRsrp example_attached 7 = None" "ueLastSinr example_attached 7 = None"
      "ueLastRsrq example_attached 7 = None" "spec_serving_cell example_attached 7 = 3"
      "cellRsrp example_attached 3 = Some (- 80)" "cellSinr example_attached 3 = Some 12"
    by (simp_all add: example_attached_def UePhyRsrpSinr_def NotifyConnectionEstablishedUe_def
          initial_state_def spec_serving_cell_def)
  from snapshot_fallback_chains [OF logger, of 1 "[LteUeNetDevice 7]" 0 example_mobility]
  obtain r where "g_logger (LogEverySecond_node 1 [LteUeNetDevice 7] 0 (Some example_mobility)
                      example_attached) = Some [r]"
     "UE_ID r = 7" "RSRP_New r = - 80" "SINR_New r = 12" "RSRQ_New r = - 20"
    by (auto simp add: dev maps spec_fallback_chain_def spec_cell_broadcast_def)
  with logger show ?thesis by blast
qed



section \<open>Caching of cell-broadcast values\<close>

lemma node_keeps_sinr:
  "ueLastSinr s imsi = Some w \<Longrightarrow>
   ueLastSinr (LogEverySecond_node time ueDevs i node s) imsi = Some w"
  by (auto simp add: LogEverySecond_node_def Let_def split: option.splits prod.splits)

lemma node_keeps_rsrp:
  "ueLastRsrp s imsi = Some v \<Longrightarrow>
   ueLastRsrp (LogEverySecond_node time ueDevs i node s) imsi = Some v"
  by (auto simp add: LogEverySecond_node_def Let_def split: option.splits prod.splits)

lemma loop_keeps_sinr:
  "ueLastSinr s imsi = Some w \<Longrightarrow>
   ueLastSinr (LogEverySecond_loop time ueDevs i ueNodes s) imsi = Some w"
  by (induction ueNodes arbitrary: i s) (simp_all add: node_keeps_sinr)

lemma loop_keeps_rsrp:
  "ueLastRsrp s imsi = Some v \<Longrightarrow>
   ueLastRsrp (LogEverySecond_loop time ueDevs i ueNodes s) imsi = Some v"
  by (induction ueNodes arbitrary: i s) (simp_all add: node_keeps_rsrp)

lemma report_keeps_sinr:
  "ueLastSinr s imsi = Some w \<Longrightarrow>
   ueLastSinr (NotifyRecvMeasurementReport time imsi' cellId msg s) imsi = Some w"
  by (auto simp add: NotifyRecvMeasurementReport_def Let_def split: option.splits prod.splits)

lemma report_keeps_rsrp:
  "ueLastRsrp s imsi = Some v \<Longrightarrow> imsi' \<noteq> imsi \<Longrightarrow>
   ueLastRsrp (NotifyRecvMeasurementReport time imsi' cellId msg s) imsi = Some v"
  by (auto simp add: NotifyRecvMeasurementReport_def Let_def split: option.splits prod.splits)

lemma handover_end_keeps:
  "ueLastSinr (NotifyHandoverEndOkEnb time imsi' cellid s) = ueLastSinr s"
  "ueLastRsrp (NotifyHandoverEndOkEnb time imsi' cellid s) = ueLastRsrp s"
  by (simp_all add: NotifyHandoverEndOkEnb_def Let_def split: option.splits)

lemma dispatch_keeps_sinr:
  assumes "ueLastSinr s imsi = Some w"
  shows "ueLastSinr (dispatch e s) imsi = Some w"
  using assms
  by (cases e)
     (simp_all add: NotifyHandoverStartEnb_def handover_end_keeps
        NotifyConnectionEstablishedUe_def UePhyRsrpSinr_def report_keeps_sinr
        LogEverySecond_def loop_keeps_sinr SampleThroughput_def Let_def)

lemma dispatch_keeps_rsrp:
  assumes "ueLastRsrp s imsi = Some v" and "\<not> entity_rsrp_observation imsi e"
  shows "ueLastRsrp (dispatch e s) imsi = Some v"
  using assms
  by (cases e)
     (simp_all add: NotifyHandoverStartEnb_def handover_end_keeps
        NotifyConnectionEstablishedUe_def UePhyRsrpSinr_def report_keeps_rsrp
        LogEverySecond_def loop_keeps_rsrp SampleThroughput_def Let_def)

lemma run_keeps_sinr:
  "ueLastSinr s imsi = Some w \<Longrightarrow> ueLastSinr (run events s) imsi = Some w"
  by (induction events arbitrary: s) (simp_all add: dispatch_keeps_sinr)

lemma run_keeps_rsrp:
  "ueLastRsrp s imsi = Some v \<Longrightarrow> \<forall>e \<in> set events. \<not> entity_rsrp_observation imsi e \<Longrightarrow>
   ueLastRsrp (run events s) imsi = Some v"
  by (induction events arbitrary: s) (simp_all add: dispatch_keeps_rsrp)


lemma tick_uses_own:
  assumes "g_logger s = Some m_file" and "LogEverySecond_imsi ueDevs i = imsi"
  shows "ueLastRsrp s imsi = Some v \<Longrightarrow>
         \<exists>r. g_logger (LogEverySecond_node time ueDevs i (Some mobility) s) = Some (m_file @ [r])
              \<and> UE_ID r = imsi \<and> RSRP_New r = v"
    and "ueLastSinr s imsi = Some w \<Longrightarrow>
         \<exists>r. g_logger (LogEverySecond_node time ueDevs i (Some mobility) s) = Some (m_file @ [r])
              \<and> UE_ID r = imsi \<and> SINR_New r = w"
  using tick_node_row [OF assms(1), of time ueDevs i mobility] assms(2)
  by (auto simp add: spec_fallback_chain_def)

lemma tick_after_run:
  assumes "g_logger s = Some m_file" and "LogEverySecond_imsi ueDevs i = imsi"
  shows "ueLastRsrp s imsi = Some v \<Longrightarrow> \<forall>e \<in> set events. \<not> entity_rsrp_observation imsi e \<Longrightarrow>
         ueLastRsrp (run events s) imsi = Some v
         \<and> (\<exists>rows r. g_logger (LogEverySecond_node time ueDevs i (Some mobility) (run events s))
                        = Some (m_file @ rows @ [r])
                    \<and> UE_ID r = imsi \<and> RSRP_New r = v)"
    and "ueLastSinr s imsi = Some w \<Longrightarrow>
         ueLastSinr (run events s) imsi = Some w
         \<and> (\<exists>rows r. g_logger (LogEverySecond_node time ueDevs i (Some mobility) (run events s))
                        = Some (m_file @ rows @ [r])
                    \<and> UE_ID r = imsi \<and> SINR_New r = w)"
proof -
  from run_keeps_logger [OF assms(1), of events]
  obtain rows where logger: "g_logger (run events s) = Some (m_file @ rows)" by blast
  {
    assume "ueLastRsrp s imsi = Some v" and "\<forall>e \<in> set events. \<not> entity_rsrp_observation imsi e"
    then have kept: "ueLastRsrp (run events s) imsi = Some v" by (rule run_keeps_rsrp)
    from tick_uses_own(1) [OF logger assms(2) kept, of time mobility]
    obtain r where "g_logger (LogEverySecond_node time ueDevs i (Some mobility) (run events s))
                        = Some (m_file @ rows @ [r])"
        and "UE_ID r = imsi" and "RSRP_New r = v"
      by auto
    with kept show "ueLastRsrp (run events s) imsi = Some v
         \<and> (\<exists>rows r. g_logger (LogEverySecond_node time ueDevs i (Some mobility) (run events s))
                        = Some (m_file @ rows @ [r])
                    \<and> UE_ID r = imsi \<and> RSRP_New r = v)"
      by blast
  }
  {
    assume "ueLastSinr s imsi = Some w"
    then have kept: "ueLastSinr (run events s) imsi = Some w" by (rule run_keeps_sinr)
    from tick_uses_own(2) [OF logger assms(2) kept, of time mobility]
    obtain r where "g_logger (LogEverySecond_node time ueDevs i (Some mobility) (run events s))
                        = Some (m_file @ rows @ [r])"
        and "UE_ID r = imsi" and "SINR_New r = w"
      by auto
    with kept show "ueLastSinr (run events s) imsi = Some w
         \<and> (\<exists>rows r. g_logger (LogEverySecond_node time ueDevs i (Some mobility) (run events s))
                        = Some (m_file @ rows @ [r])
                    \<and> UE_ID r = imsi \<and> SINR_New r = w)"
      by blast
  }
qed

lemma report_keeps_cells:
  "cellRsrp (NotifyRecvMeasurementReport time imsi cellId msg s) = cellRsrp s"
  "cellSinr (NotifyRecvMeasurementReport time imsi cellId msg s) = cellSinr s"
  by (simp_all add: NotifyRecvMeasurementReport_def Let_def split: option.splits prod.splits)

lemma tick_caches_rsrp:
  assumes "g_logger s = Some m_file" and "LogEverySecond_imsi ueDevs i = imsi"
      and "ueLastRsrp s imsi = None" and "0 < spec_serving_cell s imsi"
      and "cellRsrp s (spec_serving_cell s imsi) = Some v"
  shows "ueLastRsrp (LogEverySecond_node time ueDevs i (Some mobility) s) imsi = Some v"
    and "\<exists>r. g_logger (LogEverySecond_node time ueDevs i (Some mobility) s) = Some (m_file @ [r])
            \<and> RSRP_New r = v"
  using assms tick_node_row [OF assms(1), of time ueDevs i mobility]
  by (auto simp add: tick_node_maps(1) [OF assms(1)] spec_cell_broadcast_def
        spec_fallback_chain_def)

lemma tick_caches_sinr:
  assumes "g_logger s = Some m_file" and "LogEverySecond_imsi ueDevs i = imsi"
      and "ueLastSinr s imsi = None" and "0 < spec_serving_cell s imsi"
      and "cellSinr s (spec_serving_cell s imsi) = Some w"
  shows "ueLastSinr (LogEverySecond_node time ueDevs i (Some mobility) s) imsi = Some w"
    and "\<exists>r. g_logger (LogEverySecond_node time ueDevs i (Some mobility) s) = Some (m_file @ [r])
            \<and> SINR_New r = w"
  using assms tick_node_row [OF assms(1), of time ueDevs i mobility]
  by (auto simp add: tick_node_maps(2) [OF assms(1)] spec_cell_broadcast_def
        spec_fallback_chain_def)

lemma report_caches_sinr:
  assumes "g_logger s = Some m_file"
      and "ueLastSinr s imsi = None" and "0 < cellId" and "cellSinr s cellId = Some w"
  shows "ueLastSinr (NotifyRecvMeasurementReport time imsi cellId msg s) imsi = Some w"
    and "\<exists>r. g_logger (NotifyRecvMeasurementReport time imsi cellId msg s) = Some (m_file @ [r])
            \<and> SINR_New r = w"
  using assms
  by (simp_all add: NotifyRecvMeasurementReport_def LogMeasurement_def Let_def)


text \<open>
  C10. When a snapshot tick resolves RSRP or SINR of an entity from the value broadcast
  at its serving cell, or the measurement-report handler resolves SINR from the value
  broadcast at the reporting cell, the value goes into the row and into the entity's own
  map. From then on the entity has its own value. The cached SINR stays through every
  later run of events, and the cached RSRP stays through every later run of events
  without a measurement report of that entity (the only observation of its own that an
  entity can get); after such a run the next snapshot row of the entity still carries the
  cached value, whatever has been broadcast at any cell in between. (The
  measurement-report handler never takes RSRP from a cell: it decodes it from the
  report.)
\<close>

theorem cell_fallback_cached:
  assumes "g_logger s = Some m_file" and "LogEverySecond_imsi ueDevs i = imsi"
  shows "(ueLastRsrp s imsi = None \<and> 0 < spec_serving_cell s imsi
            \<and> cellRsrp s (spec_serving_cell s imsi) = Some v \<longrightarrow>
          ueLastRsrp (LogEverySecond_node time ueDevs i (Some mobility) s) imsi = Some v
          \<and> (\<exists>r0. g_logger (LogEverySecond_node time ueDevs i (Some mobility) s)
                     = Some (m_file @ [r0]) \<and> RSRP_New r0 = v)
          \<and> ((\<forall>e \<in> set events. \<not> entity_rsrp_observation imsi e) \<longrightarrow>
               ueLastRsrp (run events (LogEverySecond_node time ueDevs i (Some mobility) s)) imsi
                 = Some v
             \<and> (\<exists>r0 rows r.
                   g_logger (LogEverySecond_node time' ueDevs i (Some mobility')
                               (run events (LogEverySecond_node time ueDevs i (Some mobility) s)))
                     = Some ((m_file @ [r0]) @ rows @ [r])
                 \<and> UE_ID r = imsi \<and> RSRP_New r = v)))
       \<and> (ueLastSinr s imsi = None \<and> 0 < spec_serving_cell s imsi
            \<and> cellSinr s (spec_serving_cell s imsi) = Some w \<longrightarrow>
          ueLastSinr (LogEverySecond_node time ueDevs i (Some mobility) s) imsi = Some w
          \<and> (\<exists>r0. g_logger (LogEverySecond_node time ueDevs i (Some mobility) s)
                     = Some (m_file @ [r0]) \<and> SINR_New r0 = w)
          \<and> ueLastSinr (run events (LogEverySecond_node time ueDevs i (Some mobility) s)) imsi
               = Some w
          \<and> (\<exists>r0 rows r.
                g_logger (LogEverySecond_node time' ueDevs i (Some mobility')
                            (run events (LogEverySecond_node time ueDevs i (Some mobility) s)))
                  = Some ((m_file @ [r0]) @ rows @ [r])
              \<and> UE_ID r = imsi \<and> SINR_New r = w))
       \<and> (ueLastSinr s imsi = None \<and> 0 < cellId \<and> cellSinr s cellId = Some w \<longrightarrow>
          ueLastSinr (NotifyRecvMeasurementReport time imsi cellId msg s) imsi = Some w
          \<and> (\<exists>r0. g_logger (NotifyRecvMeasurementReport time imsi cellId msg s)
                     = Some (m_file @ [r0]) \<and> SINR_New r0 = w)
          \<and> ueLastSinr (run events (NotifyRecvMeasurementReport time imsi cellId msg s)) imsi
               = Some w
          \<and> (\<exists>r0 rows r.
                g_logger (LogEverySecond_node time' ueDevs i (Some mobility')
                            (run events (NotifyRecvMeasurementReport time imsi cellId msg s)))
                  = Some ((m_file @ [r0]) @ rows @ [r])
              \<and> UE_ID r = imsi \<and> SINR_New r = w))"
proof -
  let ?tick = "LogEverySecond_node time ueDevs i (Some mobility) s"
  let ?report = "NotifyRecvMeasurementReport time imsi cellId msg s"
  have rsrp: "ueLastRsrp s imsi = None \<and> 0 < spec_serving_cell s imsi
            \<and> cellRsrp s (spec_serving_cell s imsi) = Some v \<longrightarrow>
          ueLastRsrp ?tick imsi = Some v
          \<and> (\<exists>r0. g_logger ?tick = Some (m_file @ [r0]) \<and> RSRP_New r0 = v)
          \<and> ((\<forall>e \<in> set events. \<not> entity_rsrp_observation imsi e) \<longrightarrow>
               ueLastRsrp (run events ?tick) imsi = Some v
             \<and> (\<exists>r0 rows r.
                   g_logger (LogEverySecond_node time' ueDevs i (Some mobility') (run events ?tick))
                     = Some ((m_file @ [r0]) @ rows @ [r])
                 \<and> UE_ID r = imsi \<and> RSRP_New r = v))"
  proof
    assume a: "ueLastRsrp s imsi = None \<and> 0 < spec_serving_cell s imsi
            \<and> cellRsrp s (spec_serving_cell s imsi) = Some v"
    from a tick_caches_rsrp [OF assms, of v time mobility]
    obtain r0 where cached: "ueLastRsrp ?tick imsi = Some v"
        and r0: "g_logger ?tick = Some (m_file @ [r0])" "RSRP_New r0 = v"
      by blast
    have later: "(\<forall>e \<in> set events. \<not> entity_rsrp_observation imsi e) \<longrightarrow>
               ueLastRsrp (run events ?tick) imsi = Some v
             \<and> (\<exists>r0 rows r.
                   g_logger (LogEverySecond_node time' ueDevs i (Some mobility') (run events ?tick))
                     = Some ((m_file @ [r0]) @ rows @ [r])
                 \<and> UE_ID r = imsi \<and> RSRP_New r = v)"
    proof
      assume "\<forall>e \<in> set events. \<not> entity_rsrp_observation imsi e"
      from tick_after_run(1) [OF r0(1) assms(2) cached this, of time' mobility']
      show "ueLastRsrp (run events ?tick) imsi = Some v
             \<and> (\<exists>r0 rows r.
                   g_logger (LogEverySecond_node time' ueDevs i (Some mobility') (run events ?tick))
                     = Some ((m_file @ [r0]) @ rows @ [r])
                 \<and> UE_ID r = imsi \<and> RSRP_New r = v)"
        by blast
    qed
    from cached r0 later
    show "ueLastRsrp ?tick imsi = Some v
          \<and> (\<exists>r0. g_logger ?tick = Some (m_file @ [r0]) \<and> RSRP_New r0 = v)
          \<and> ((\<forall>e \<in> set events. \<not> entity_rsrp_observation imsi e) \<longrightarrow>
               ueLastRsrp (run events ?tick) imsi = Some v
             \<and> (\<exists>r0 rows r.
                   g_logger (LogEverySecond_node time' ueDevs i (Some mobility') (run events ?tick))
                     = Some ((m_file @ [r0]) @ rows @ [r])
                 \<and> UE_ID r = imsi \<and> RSRP_New r = v))"
      by blast
  qed
  have sinr_tick: "ueLastSinr s imsi = None \<and> 0 < spec_serving_cell s imsi
            \<and> cellSinr s (spec_serving_cell s imsi) = Some w \<longrightarrow>
          ueLastSinr ?tick imsi = Some w
          \<and> (\<exists>r0. g_logger ?tick = Some (m_file @ [r0]) \<and> SINR_New r0 = w)
          \<and> ueLastSinr (run events ?tick) imsi = Some w
          \<and> (\<exists>r0 rows r.
                g_logger (LogEverySecond_node time' ueDevs i (Some mobility') (run events ?tick))
                  = Some ((m_file @ [r0]) @ rows @ [r])
              \<and> UE_ID r = imsi \<and> SINR_New r = w)"
  proof
    assume a: "ueLastSinr s imsi = None \<and> 0 < spec_serving_cell s imsi
            \<and> cellSinr s (spec_serving_cell s imsi) = Some w"
    from a tick_caches_sinr [OF assms, of w time mobility]
    obtain r0 where cached: "ueLastSinr ?tick imsi = Some w"
        and r0: "g_logger ?tick = Some (m_file @ [r0])" "SINR_New r0 = w"
      by blast
    from tick_after_run(2) [OF r0(1) assms(2) cached, of events time' mobility'] cached r0
    show "ueLastSinr ?tick imsi = Some w
          \<and> (\<exists>r0. g_logger ?tick = Some (m_file @ [r0]) \<and> SINR_New r0 = w)
          \<and> ueLastSinr (run events ?tick) imsi = Some w
          \<and> (\<exists>r0 rows r.
                g_logger (LogEverySecond_node time' ueDevs i (Some mobility') (run events ?tick))
                  = Some ((m_file @ [r0]) @ rows @ [r])
              \<and> UE_ID r = imsi \<and> SINR_New r = w)"
      by blast
  qed
  have sinr_report: "ueLastSinr s imsi = None \<and> 0 < cellId \<and> cellSinr s cellId = Some w \<longrightarrow>
          ueLastSinr ?report imsi = Some w
          \<and> (\<exists>r0. g_logger ?report = Some (m_file @ [r0]) \<and> SINR_New r0 = w)
          \<and> ueLastSinr (run events ?report) imsi = Some w
          \<and> (\<exists>r0 rows r.
                g_logger (LogEverySecond_node time' ueDevs i (Some mobility') (run events ?report))
                  = Some ((m_file @ [r0]) @ rows @ [r])
              \<and> UE_ID r = imsi \<and> SINR_New r = w)"
  proof
    assume a: "ueLastSinr s imsi = None \<and> 0 < cellId \<and> cellSinr s cellId = Some w"
    from a report_caches_sinr [OF assms(1), of imsi cellId w time msg]
    obtain r0 where cached: "ueLastSinr ?report imsi = Some w"
        and r0: "g_logger ?report = Some (m_file @ [r0])" "SINR_New r0 = w"
      by blast
    from tick_after_run(2) [OF r0(1) assms(2) cached, of events time' mobility'] cached r0
    show "ueLastSinr ?report imsi = Some w
          \<and> (\<exists>r0. g_logger ?report = Some (m_file @ [r0]) \<and> SINR_New r0 = w)
          \<and> ueLastSinr (run events ?report) imsi = Some w
          \<and> (\<exists>r0 rows r.
                g_logger (LogEverySecond_node time' ueDevs i (Some mobility') (run events ?report))
                  = Some ((m_file @ [r0]) @ rows @ [r])
              \<and> UE_ID r = imsi \<and> SINR_New r = w)"
      by blast
  qed
  show ?thesis by (intro conjI rsrp sinr_tick sinr_report)
qed


theorem cell_fallback_cached_witness:
  "g_logger example_attached = Some []
   \<and> LogEverySecond_imsi [LteUeNetDevice 7] 0 = 7
   \<and> ueLastRsrp example_attached 7 = None \<and> ueLastSinr example_attached 7 = None
   \<and> 0 < spec_serving_cell example_attached 7
   \<and> cellRsrp example_attached (spec_serving_cell example_attached 7) = Some (- 80)
   \<and> cellSinr example_attached (spec_serving_cell example_attached 7) = Some 12
   \<and> (0 :: cell_t) < 3 \<and> cellSinr example_attached 3 = Some 12
   \<and> \<not> list_ex (entity_rsrp_observation 7) example_events
   \<and> ueLastRsrp (run example_events
                   (LogEverySecond_node 1 [LteUeNetDevice 7] 0 (Some example_mobility)
                      example_attached)) 7 = Some (- 80)
   \<and> (\<exists>r0 rows r.
         g_logger (LogEverySecond_node 3 [LteUeNetDevice 7] 0 (Some example_mobility)
                     (run example_events
                        (LogEverySecond_node 1 [LteUeNetDevice 7] 0 (Some example_mobility)
                           example_attached)))
           = Some ([r0] @ rows @ [r])
       \<and> UE_ID r = 7 \<and> RSRP_New r = - 80)
   \<and> cellSinr (run example_events_report
                 (LogEverySecond_node 1 [LteUeNetDevice 7] 0 (Some example_mobility)
                    example_attached)) 3 = Some 20
   \<and> ueLastSinr (run example_events_report
                   (LogEverySecond_node 1 [LteUeNetDevice 7] 0 (Some example_mobility)
                      example_attached)) 7 = Some 12
   \<and> (\<exists>r0 rows r.
         g_logger (LogEverySecond_node 3 [LteUeNetDevice 7] 0 (Some example_mobility)
                     (run example_events_report
                        (LogEverySecond_node 1 [LteUeNetDevice 7] 0 (Some example_mobility)
                           example_attached)))
           = Some ([r0] @ rows @ [r])
       \<and> UE_ID r = 7 \<and> SINR_New r = 12)
   \<and> ueLastSinr (run example_events_report
                   (NotifyRecvMeasurementReport 1 7 3 example_report example_attached)) 7 = Some 12
   \<and> (\<exists>r0 rows r.
         g_logger (LogEverySecond_node 3 [LteUeNetDevice 7] 0 (Some example_mobility)
                     (run example_events_report
                        (NotifyRecvMeasurementReport 1 7 3 example_report example_attached)))
           = Some ([r0] @ rows @ [r])
       \<and> UE_ID r = 7 \<and> SINR_New r = 12)"
proof -
  let ?tick = "LogEverySecond_node 1 [LteUeNetDevice 7] 0 (Some example_mobility) example_attached"
  let ?report = "NotifyRecvMeasurementReport 1 7 3 example_report example_attached"
  note logger = example_attached_maps(1)
  have cell: "spec_serving_cell example_attached 7 = 3"
    by (simp add: spec_serving_cell_def example_attached_maps)
  have pos: "(0 :: cell_t) < 3" by simp
  have quiet: "\<forall>e \<in> set example_events. \<not> entity_rsrp_observation 7 e"
    by (simp add: example_events_def)
  then have quiet': "\<not> list_ex (entity_rsrp_observation 7) example_events"
    by (simp add: list_ex_iff)
  have changed: "cellSinr (run example_events_report ?tick) 3 = Some 20"
    by (simp add: example_events_report_def report_keeps_cells UePhyRsrpSinr_def)
  note rsrp = cell_fallback_cached [OF logger example_dev,
      where v = "- 80" and w = 12 and time = 1 and mobility = example_mobility
        and events = example_events and time' = 3 and mobility' = example_mobility
        and cellId = 3 and msg = example_report]
  note sinr = cell_fallback_cached [OF logger example_dev,
      where v = "- 80" and w = 12 and time = 1 and mobility = example_mobility
        and events = example_events_report and time' = 3 and mobility' = example_mobility
        and cellId = 3 and msg = example_report]
  from rsrp quiet
  have a: "ueLastRsrp (run example_events ?tick) 7 = Some (- 80)
     \<and> (\<exists>r0 rows r.
         g_logger (LogEverySecond_node 3 [LteUeNetDevice 7] 0 (Some example_mobility)
                     (run example_events ?tick))
           = Some ([r0] @ rows @ [r])
       \<and> UE_ID r = 7 \<and> RSRP_New r = - 80)"
    by (simp add: cell example_attached_maps)
  from sinr
  have b: "ueLastSinr (run example_events_report ?tick) 7 = Some 12
     \<and> (\<exists>r0 rows r.
         g_logger (LogEverySecond_node 3 [LteUeNetDevice 7] 0 (Some example_mobility)
                     (run example_events_report ?tick))
           = Some ([r0] @ rows @ [r])
       \<and> UE_ID r = 7 \<and> SINR_New r = 12)"
    by (simp add: cell example_attached_maps)
  from sinr pos
  have c: "ueLastSinr (run example_events_report ?report) 7 = Some 12
     \<and> (\<exists>r0 rows r.
         g_logger (LogEverySecond_node 3 [LteUeNetDevice 7] 0 (Some example_mobility)
                     (run example_events_report ?report))
           = Some ([r0] @ rows @ [r])
       \<and> UE_ID r = 7 \<and> SINR_New r = 12)"
    by (simp add: cell example_attached_maps)
  from logger example_dev example_attached_maps cell pos quiet' changed a b c
  show ?thesis by simp
qed


section \<open>MEASUREMENT rows\<close>






section \<open>The traffic sampler\<close>

lemma flow_step_dl:
  assumes "0 < t"
  shows "fst (SampleThroughput_flow t FindFlow m totals it) imsi =
     (if m (destinationAddress (FindFlow (fst it))) = Some imsi
      then Some ((case fst totals imsi of Some a \<Rightarrow> a | None \<Rightarrow> 0) + flowThroughputDl t (snd it))
      else fst totals imsi)"
  using assms
  by (auto simp add: SampleThroughput_flow_def add_to_def Let_def split: option.splits)

lemma flow_step_ul:
  assumes "0 < t"
  shows "snd (SampleThroughput_flow t FindFlow m totals it) imsi =
     (if m (sourceAddress (FindFlow (fst it))) = Some imsi
      then Some ((case snd totals imsi of Some a \<Rightarrow> a | None \<Rightarrow> 0) + flowThroughputUl t (snd it))
      else snd totals imsi)"
  using assms
  by (auto simp add: SampleThroughput_flow_def add_to_def Let_def split: option.splits)

lemma totals_dl:
  assumes "0 < t"
  shows "fst (foldl (SampleThroughput_flow t FindFlow m) totals stats) imsi =
     (if downlink_flows FindFlow m imsi stats = [] then fst totals imsi
      else Some ((case fst totals imsi of Some a \<Rightarrow> a | None \<Rightarrow> 0)
                 + (\<Sum>it \<leftarrow> downlink_flows FindFlow m imsi stats. flowThroughputDl t (snd it))))"
proof (induction stats arbitrary: totals)
  case Nil
  show ?case by (simp add: downlink_flows_def)
next
  case (Cons it rest)
  have "fst (foldl (SampleThroughput_flow t FindFlow m) totals (it # rest)) imsi
      = fst (foldl (SampleThroughput_flow t FindFlow m)
               (SampleThroughput_flow t FindFlow m totals it) rest) imsi"
    by simp
  also have "\<dots> =
     (if downlink_flows FindFlow m imsi rest = []
      then fst (SampleThroughput_flow t FindFlow m totals it) imsi
      else Some ((case fst (SampleThroughput_flow t FindFlow m totals it) imsi of
                    Some a \<Rightarrow> a | None \<Rightarrow> 0)
                 + (\<Sum>it \<leftarrow> downlink_flows FindFlow m imsi rest. flowThroughputDl t (snd it))))"
    by (rule Cons.IH)
  also have "\<dots> =
     (if downlink_flows FindFlow m imsi (it # rest) = [] then fst totals imsi
      else Some ((case fst totals imsi of Some a \<Rightarrow> a | None \<Rightarrow> 0)
                 + (\<Sum>it \<leftarrow> downlink_flows FindFlow m imsi (it # rest).
                      flowThroughputDl t (snd it))))"
    by (simp add: flow_step_dl [OF assms] downlink_flows_def)
  finally show ?case .
qed

lemma totals_ul:
  assumes "0 < t"
  shows "snd (foldl (SampleThroughput_flow t FindFlow m) totals stats) imsi =
     (if uplink_flows FindFlow m imsi stats = [] then snd totals imsi
      else Some ((case snd totals imsi of Some a \<Rightarrow> a | None \<Rightarrow> 0)
                 + (\<Sum>it \<leftarrow> uplink_flows FindFlow m imsi stats. flowThroughputUl t (snd it))))"
proof (induction stats arbitrary: totals)
  case Nil
  show ?case by (simp add: uplink_flows_def)
next
  case (Cons it rest)
  have "snd (foldl (SampleThroughput_flow t FindFlow m) totals (it # rest)) imsi
      = snd (foldl (SampleThroughput_flow t FindFlow m)
               (SampleThroughput_flow t FindFlow m totals it) rest) imsi"
    by simp
  also have "\<dots> =
     (if uplink_flows FindFlow m imsi rest = []
      then snd (SampleThroughput_flow t FindFlow m totals it) imsi
      else Some ((case snd (SampleThroughput_flow t FindFlow m totals it) imsi of
                    Some a \<Rightarrow> a | None \<Rightarrow> 0)
                 + (\<Sum>it \<leftarrow> uplink_flows FindFlow m imsi rest. flowThroughputUl t (snd it))))"
    by (rule Cons.IH)
  also have "\<dots> =
     (if uplink_flows FindFlow m imsi (it # rest) = [] then snd totals imsi
      else Some ((case snd totals imsi of Some a \<Rightarrow> a | None \<Rightarrow> 0)
                 + (\<Sum>it \<leftarrow> uplink_flows FindFlow m imsi (it # rest).
                      flowThroughputUl t (snd it))))"
    by (simp add: flow_step_ul [OF assms] uplink_flows_def)
  finally show ?case .
qed

lemma rate_constant:
  assumes "0 < t" and "real (unat bytes) = r * t"
  shows "real (unat bytes) * 8 / (t * 1000000) = r * 8 / 1000000"
  using assms by (simp add: field_simps)

lemma same_rate_flow:
  assumes "0 < t" and "0 < t'" and "same_rate t t' a b"
  shows "SampleThroughput_flow t FindFlow m totals a = SampleThroughput_flow t' FindFlow m totals b"
proof -
  from assms(3) have id: "fst a = fst b"
      and rx: "real (unat (rxBytes (snd a))) * t' = real (unat (rxBytes (snd b))) * t"
      and tx: "real (unat (txBytes (snd a))) * t' = real (unat (txBytes (snd b))) * t"
    by (simp_all add: same_rate_def)
  have dl: "flowThroughputDl t (snd a) = flowThroughputDl t' (snd b)"
    unfolding flowThroughputDl_def using assms(1,2) rx by (simp add: field_simps)
  have ul: "flowThroughputUl t (snd a) = flowThroughputUl t' (snd b)"
    unfolding flowThroughputUl_def using assms(1,2) tx by (simp add: field_simps)
  show ?thesis
    using assms(1,2)
    by (simp add: SampleThroughput_flow_def Let_def id dl ul split: option.splits)
qed

lemma same_rate_totals:
  assumes "0 < t" and "0 < t'" and "list_all2 (same_rate t t') stats stats'"
  shows "foldl (SampleThroughput_flow t FindFlow m) totals stats
       = foldl (SampleThroughput_flow t' FindFlow m) totals stats'"
  using assms(3)
proof (induction stats stats' arbitrary: totals rule: list_all2_induct)
  case Nil
  show ?case by simp
next
  case (Cons a stats b stats')
  from same_rate_flow [OF assms(1,2) Cons.hyps(1)] Cons.IH
  show ?case by simp
qed


text \<open>
  C8. At a sample time \<open>t > 0\<close> a flow contributes \<open>rxBytes * 8 / (t * 10^6)\<close> to the
  downlink throughput of the entity at its destination address and
  \<open>txBytes * 8 / (t * 10^6)\<close> to the uplink throughput of the entity at its source
  address; the entity's throughput after the sample is the sum of the contributions of
  its flows (an entity without such a flow keeps its previous value). If a counter is
  \<open>r * t\<close> the contribution is \<open>r * 8 / 10^6\<close> whatever \<open>t\<close> is, so two samples at
  different times whose counters grew at the same rates leave the same state: the value
  is a running average over the whole elapsed time. The arithmetic is that of the real
  numbers.
\<close>

theorem throughput_running_average:
  assumes "0 < currentTime"
  shows "flowThroughputDl currentTime st = real (unat (rxBytes st)) * 8 / (currentTime * 10 ^ 6)
   \<and> flowThroughputUl currentTime st = real (unat (txBytes st)) * 8 / (currentTime * 10 ^ 6)
   \<and> ueThroughputDl (SampleThroughput currentTime stats FindFlow ueDevs ueIpIfaces numUes s) imsi
       = (if downlink_flows FindFlow (build_ipToImsi numUes ueIpIfaces ueDevs) imsi stats = []
          then ueThroughputDl s imsi
          else Some (\<Sum>it \<leftarrow> downlink_flows FindFlow (build_ipToImsi numUes ueIpIfaces ueDevs)
                                imsi stats.
                       real (unat (rxBytes (snd it))) * 8 / (currentTime * 10 ^ 6)))
   \<and> ueThroughputUl (SampleThroughput currentTime stats FindFlow ueDevs ueIpIfaces numUes s) imsi
       = (if uplink_flows FindFlow (build_ipToImsi numUes ueIpIfaces ueDevs) imsi stats = []
          then ueThroughputUl s imsi
          else Some (\<Sum>it \<leftarrow> uplink_flows FindFlow (build_ipToImsi numUes ueIpIfaces ueDevs)
                                imsi stats.
                       real (unat (txBytes (snd it))) * 8 / (currentTime * 10 ^ 6)))
   \<and> (real (unat (rxBytes st)) = r * currentTime \<longrightarrow>
        flowThroughputDl currentTime st = r * 8 / 10 ^ 6)
   \<and> (real (unat (txBytes st)) = r * currentTime \<longrightarrow>
        flowThroughputUl currentTime st = r * 8 / 10 ^ 6)
   \<and> (0 < t' \<and> list_all2 (same_rate currentTime t') stats stats' \<longrightarrow>
        SampleThroughput currentTime stats FindFlow ueDevs ueIpIfaces numUes s
          = SampleThroughput t' stats' FindFlow ueDevs ueIpIfaces numUes s)"
proof (intro conjI impI)
  show "flowThroughputDl currentTime st = real (unat (rxBytes st)) * 8 / (currentTime * 10 ^ 6)"
    by (simp add: flowThroughputDl_def)
  show "flowThroughputUl currentTime st = real (unat (txBytes st)) * 8 / (currentTime * 10 ^ 6)"
    by (simp add: flowThroughputUl_def)
  let ?m = "build_ipToImsi numUes ueIpIfaces ueDevs"
  show "ueThroughputDl (SampleThroughput currentTime stats FindFlow ueDevs ueIpIfaces numUes s) imsi
       = (if downlink_flows FindFlow ?m imsi stats = [] then ueThroughputDl s imsi
          else Some (\<Sum>it \<leftarrow> downlink_flows FindFlow ?m imsi stats.
                       real (unat (rxBytes (snd it))) * 8 / (currentTime * 10 ^ 6)))"
    using totals_dl [OF assms, of FindFlow ?m "(Map.empty, Map.empty)" stats imsi]
    by (simp add: SampleThroughput_def Let_def map_add_def flowThroughputDl_def)
  show "ueThroughputUl (SampleThroughput currentTime stats FindFlow ueDevs ueIpIfaces numUes s) imsi
       = (if uplink_flows FindFlow ?m imsi stats = [] then ueThroughputUl s imsi
          else Some (\<Sum>it \<leftarrow> uplink_flows FindFlow ?m imsi stats.
                       real (unat (txBytes (snd it))) * 8 / (currentTime * 10 ^ 6)))"
    using totals_ul [OF assms, of FindFlow ?m "(Map.empty, Map.empty)" stats imsi]
    by (simp add: SampleThroughput_def Let_def map_add_def flowThroughputUl_def)
next
  assume "real (unat (rxBytes st)) = r * currentTime"
  from rate_constant [OF assms this]
  show "flowThroughputDl currentTime st = r * 8 / 10 ^ 6"
    by (simp add: flowThroughputDl_def)
next
  assume "real (unat (txBytes st)) = r * currentTime"
  from rate_constant [OF assms this]
  show "flowThroughputUl currentTime st = r * 8 / 10 ^ 6"
    by (simp add: flowThroughputUl_def)
next
  assume "0 < t' \<and> list_all2 (same_rate currentTime t') stats stats'"
  then have "0 < t'" and "list_all2 (same_rate currentTime t') stats stats'" by simp_all
  from same_rate_totals [OF assms this]
  show "SampleThroughput currentTime stats FindFlow ueDevs ueIpIfaces numUes s
          = SampleThroughput t' stats' FindFlow ueDevs ueIpIfaces numUes s"
    by (simp add: SampleThroughput_def)
qed

theorem throughput_running_average_witness:
  "(0 :: real) < 1 \<and> (0 :: real) < 5
   \<and> real (unat (rxBytes (snd (hd (example_stats 1000))))) = 1000 * 1
   \<and> list_all2 (same_rate 1 5) (example_stats 1000) (example_stats 5000)
   \<and> flowThroughputDl 1 (snd (hd (example_stats 1000))) = 0.008
   \<and> ueThroughputDl (SampleThroughput 1 (example_stats 1000) example_FindFlow [LteUeNetDevice 7]
                       [20] 1 initial_state) 7 = Some 0.008
   \<and> ueThroughputUl (SampleThroughput 1 (example_stats 1000) example_FindFlow [LteUeNetDevice 7]
                       [20] 1 initial_state) 7 = None
   \<and> SampleThroughput 1 (example_stats 1000) example_FindFlow [LteUeNetDevice 7] [20] 1
         initial_state
       = SampleThroughput 5 (example_stats 5000) example_FindFlow [LteUeNetDevice 7] [20] 1
           initial_state"
proof -
  have t: "(0 :: real) < 1" and t': "(0 :: real) < 5" by simp_all
  have bytes: "real (unat (rxBytes (snd (hd (example_stats 1000))))) = 1000 * 1"
    by (simp add: example_stats_def)
  have rates: "list_all2 (same_rate 1 5) (example_stats 1000) (example_stats 5000)"
    by (simp add: example_stats_def same_rate_def)
  have m: "build_ipToImsi 1 [20] [LteUeNetDevice 7] = [20 \<mapsto> 7]"
    by (simp add: build_ipToImsi_def ipToImsi_step_def)
  have dl: "downlink_flows example_FindFlow [20 \<mapsto> 7] 7 (example_stats 1000) = example_stats 1000"
    by (simp add: downlink_flows_def example_FindFlow_def example_stats_def)
  have ul: "uplink_flows example_FindFlow [20 \<mapsto> 7] 7 (example_stats 1000) = []"
    by (simp add: uplink_flows_def example_FindFlow_def example_stats_def)
  note inst = throughput_running_average [OF t,
      of "snd (hd (example_stats 1000))" "example_stats 1000" example_FindFlow
         "[LteUeNetDevice 7]" "[20]" 1 initial_state 7 1000 5 "example_stats 5000"]
  from inst bytes have a: "flowThroughputDl 1 (snd (hd (example_stats 1000))) = 0.008"
    by simp
  from inst have b: "ueThroughputDl (SampleThroughput 1 (example_stats 1000) example_FindFlow
                       [LteUeNetDevice 7] [20] 1 initial_state) 7 = Some 0.008"
    by (simp add: m dl) (simp add: example_stats_def)
  from inst have c: "ueThroughputUl (SampleThroughput 1 (example_stats 1000) example_FindFlow
                       [LteUeNetDevice 7] [20] 1 initial_state) 7 = None"
    by (simp add: m ul initial_state_def)
  from inst t' rates
  have d: "SampleThroughput 1 (example_stats 1000) example_FindFlow [LteUeNetDevice 7] [20] 1
         initial_state
       = SampleThroughput 5 (example_stats 5000) example_FindFlow [LteUeNetDevice 7] [20] 1
           initial_state"
    by blast
  from t t' bytes rates a b c d show ?thesis by blast
qed


section \<open>The flow summary\<close>

text \<open>
  C9. For a flow with exactly one received packet the guard \<open>rxPackets > 0\<close> holds, the
  delay mean is \<open>delaySum / 1\<close>, but the divisor of the jitter mean, \<open>rxPackets - 1\<close>, is
  0: the jitter mean written to the summary is not a finite number.
\<close>

theorem jitter_divisor_one_packet:
  "0 < rxPackets example_one_packet
   \<and> delay_divisor example_one_packet = 1
   \<and> delayMean example_one_packet = Some 20
   \<and> jitter_divisor example_one_packet = 0
   \<and> jitterMean example_one_packet = None"
  by (simp add: example_one_packet_def delay_divisor_def jitter_divisor_def delayMean_def
        jitterMean_def ddiv_def)


end
